theory Spec2Isabelle
  imports Complex_Main
begin

section \<open>PostgreSQL numerics\<close>

text \<open>
  The stability engine is written in PL/pgSQL over \<^verbatim>\<open>DECIMAL(p,s)\<close> values. A
  \<^verbatim>\<open>DECIMAL(p,s)\<close> holds a decimal number with \<open>s\<close> digits after the point and
  at most \<open>p\<close> digits in all. Storing a value into a variable or column of that type, or
  casting to it, rounds to \<open>s\<close> places (ties away from zero) and raises
  \<^verbatim>\<open>numeric field overflow\<close> when the rounded value needs more than \<open>p - s\<close> digits
  before the point. Values are modelled as reals; the results of \<^verbatim>\<open>AVG\<close>,
  \<^verbatim>\<open>POWER\<close>, \<^verbatim>\<open>SQRT\<close> and \<^verbatim>\<open>/\<close> are taken exact, and every
  rounding the source asks for by a declared type or a cast is written out.
\<close>

datatype error = NumericOverflow

definition round_half_away :: "real \<Rightarrow> int" where
  "round_half_away x = (if 0 \<le> x then \<lfloor>x + 1 / 2\<rfloor> else - \<lfloor>- x + 1 / 2\<rfloor>)"

definition round_dec :: "nat \<Rightarrow> real \<Rightarrow> real" where
  "round_dec s x = real_of_int (round_half_away (x * 10 ^ s)) / 10 ^ s"

definition to_decimal :: "nat \<Rightarrow> nat \<Rightarrow> real \<Rightarrow> error + real" where
  "to_decimal p s x =
     (let r = round_dec s x
      in if \<bar>r\<bar> < 10 ^ (p - s) then Inr r else Inl NumericOverflow)"

text \<open>
  \<^verbatim>\<open>AVG\<close> over the rows of \<^verbatim>\<open>unnest(...)\<close>. The source only averages
  arrays and slices that hold at least one element (the guards \<open>rate_count \<ge> 3\<close> and
  \<open>rate_count \<ge> 4\<close> come first), so the division is never by zero there.
\<close>

definition avg :: "real list \<Rightarrow> real" where
  "avg xs = sum_list xs / real (length xs)"

section \<open>Stability analysis: \<^verbatim>\<open>calculate_pattern_stability\<close>\<close>

text \<open>
  Three scripts create this function with \<^verbatim>\<open>CREATE OR REPLACE\<close>. The definitions
  below follow the last of them, the precision fix, which replaces the other two. The
  earlier text is the same but for the declared types (\<^verbatim>\<open>mean_rate DECIMAL(5,2)\<close>,
  \<^verbatim>\<open>recent_trend\<close> and \<^verbatim>\<open>historical_trend DECIMAL(3,2)\<close>), the place of the
  cast in the stability score and the missing \<^verbatim>\<open>IS NULL\<close> test of the guard.
\<close>

text \<open>The row type of \<^verbatim>\<open>RETURNS TABLE(...)\<close>.\<close>

record stability_data =
  stability_score :: real
  pattern_variance :: real
  weekly_rates :: "real list"
  is_stable :: bool
  drift_detected :: bool

text \<open>
  \<^verbatim>\<open>SELECT AVG(rate::DECIMAL(8,3)) INTO mean_rate\<close>, with
  \<^verbatim>\<open>mean_rate DECIMAL(8,3)\<close>. The elements of a \<^verbatim>\<open>DECIMAL(5,2)[]\<close> widen
  to \<^verbatim>\<open>DECIMAL(8,3)\<close> unchanged.
\<close>

definition mean_rate_of :: "real list \<Rightarrow> error + real" where
  "mean_rate_of success_rates = to_decimal 8 3 (avg success_rates)"

text \<open>
  \<^verbatim>\<open>SELECT AVG(POWER(rate::DECIMAL(8,3) - mean_rate, 2)) INTO variance_calc\<close>, with
  \<^verbatim>\<open>variance_calc DECIMAL(8,3)\<close>.
\<close>

definition variance_calc_of :: "real list \<Rightarrow> real \<Rightarrow> error + real" where
  "variance_calc_of success_rates mean_rate =
     to_decimal 8 3 (avg (map (\<lambda>rate. (rate - mean_rate) ^ 2) success_rates))"

text \<open>
  \<^verbatim>\<open>IF mean_rate > 0 THEN stability_calc := GREATEST(0, LEAST(1,
  (1 - (SQRT(variance_calc) / mean_rate))::DECIMAL(5,3))); ELSE stability_calc := 0;\<close>
\<close>

definition stability_calc_of :: "real \<Rightarrow> real \<Rightarrow> error + real" where
  "stability_calc_of mean_rate variance_calc =
     (if mean_rate > 0 then
        (case to_decimal 5 3 (1 - sqrt variance_calc / mean_rate) of
           Inl e \<Rightarrow> Inl e
         | Inr q \<Rightarrow> Inr (max 0 (min 1 q)))
      else Inr 0)"

text \<open>
  The drift block. \<^verbatim>\<open>success_rates[rate_count-1:rate_count]\<close> is the slice of the
  last two elements, \<^verbatim>\<open>success_rates[1:rate_count-2]\<close> the slice of all the others
  (arrays are 1-based); \<^verbatim>\<open>recent_trend\<close> and \<^verbatim>\<open>historical_trend\<close> are
  \<^verbatim>\<open>DECIMAL(8,3)\<close>.
\<close>

definition drift_detected_calc_of :: "real list \<Rightarrow> error + bool" where
  "drift_detected_calc_of success_rates =
     (let rate_count = length success_rates
      in if rate_count \<ge> 4 then
           (case to_decimal 8 3 (avg (drop (rate_count - 2) success_rates)) of
              Inl e \<Rightarrow> Inl e
            | Inr recent_trend \<Rightarrow>
                (case to_decimal 8 3 (avg (take (rate_count - 2) success_rates)) of
                   Inl e \<Rightarrow> Inl e
                 | Inr historical_trend \<Rightarrow>
                     Inr (\<bar>recent_trend - historical_trend\<bar> > 20)))
         else Inr False)"

text \<open>
  The same block in the two earlier scripts, where \<^verbatim>\<open>recent_trend\<close> and
  \<^verbatim>\<open>historical_trend\<close> are \<^verbatim>\<open>DECIMAL(3,2)\<close>.
\<close>

definition drift_detected_calc_phase2 :: "real list \<Rightarrow> error + bool" where
  "drift_detected_calc_phase2 success_rates =
     (let rate_count = length success_rates
      in if rate_count \<ge> 4 then
           (case to_decimal 3 2 (avg (drop (rate_count - 2) success_rates)) of
              Inl e \<Rightarrow> Inl e
            | Inr recent_trend \<Rightarrow>
                (case to_decimal 3 2 (avg (take (rate_count - 2) success_rates)) of
                   Inl e \<Rightarrow> Inl e
                 | Inr historical_trend \<Rightarrow>
                     Inr (\<bar>recent_trend - historical_trend\<bar> > 20)))
         else Inr False)"

text \<open>
  The body of \<^verbatim>\<open>calculate_pattern_stability\<close> from
  \<^verbatim>\<open>rate_count := array_length(success_rates, 1)\<close> on. An array that was never
  appended to is \<^verbatim>\<open>NULL\<close>, its length is \<^verbatim>\<open>NULL\<close>, and the guard
  \<^verbatim>\<open>rate_count IS NULL OR rate_count < 3\<close> takes it to the default row: the empty
  list stands for it.
\<close>

definition pattern_stability :: "real list \<Rightarrow> error + stability_data" where
  "pattern_stability success_rates =
     (let rate_count = length success_rates
      in if rate_count < 3 then
           Inr \<lparr>stability_score = 0.5, pattern_variance = 0,
                weekly_rates = success_rates, is_stable = False, drift_detected = False\<rparr>
         else
           (case mean_rate_of success_rates of
              Inl e \<Rightarrow> Inl e
            | Inr mean_rate \<Rightarrow>
           (case variance_calc_of success_rates mean_rate of
              Inl e \<Rightarrow> Inl e
            | Inr variance_calc \<Rightarrow>
           (case stability_calc_of mean_rate variance_calc of
              Inl e \<Rightarrow> Inl e
            | Inr stability_calc \<Rightarrow>
           (case drift_detected_calc_of success_rates of
              Inl e \<Rightarrow> Inl e
            | Inr drift_detected_calc \<Rightarrow>
                Inr \<lparr>stability_score = stability_calc, pattern_variance = variance_calc,
                     weekly_rates = success_rates,
                     is_stable = (stability_calc \<ge> 0.7),
                     drift_detected = drift_detected_calc\<rparr>)))))"

section \<open>The edit event ledger and the weekly query\<close>

text \<open>
  Timestamps count seconds from 1970-01-01 00:00 (a Thursday); the session time zone is
  taken to be UTC.
\<close>

text \<open>
  Modelled from the spec: the column types of \<^verbatim>\<open>edit_analyses\<close>, whose
  \<^verbatim>\<open>CREATE TABLE\<close> statement is not among the sources. A row has the columns that
  \<^verbatim>\<open>storeEditAnalysis\<close> writes and \<^verbatim>\<open>created_at\<close>; following the data model
  of the specification and the values the scripts insert, \<^verbatim>\<open>success_score\<close> is an
  integer, \<^verbatim>\<open>user_id\<close> is nullable and the other columns are not;
  \<^verbatim>\<open>created_at\<close> defaults to the time of the insert.
\<close>

record edit_analysis_row =
  response_id :: string
  original_text :: string
  edited_text :: string
  edit_type :: string
  edit_percentage :: nat
  edit_description :: string
  success_score :: int
  learning_insight :: string
  user_id :: "string option"
  created_at :: int

definition seconds_per_day :: int where
  "seconds_per_day = 86400"

text \<open>\<^verbatim>\<open>CURRENT_DATE\<close>, as the timestamp of its midnight.\<close>

definition current_date :: "int \<Rightarrow> int" where
  "current_date now = (now div seconds_per_day) * seconds_per_day"

text \<open>\<^verbatim>\<open>DATE_TRUNC('week', t)\<close>: the midnight that starts the Monday on or before \<open>t\<close>.\<close>

definition date_trunc_week :: "int \<Rightarrow> int" where
  "date_trunc_week t =
     (let d = t div seconds_per_day in (d - (d + 3) mod 7) * seconds_per_day)"

definition eight_weeks :: int where
  "eight_weeks = 8 * 7 * seconds_per_day"

text \<open>
  The \<^verbatim>\<open>WHERE\<close> clause of the query of the
  \<^verbatim>\<open>FOR weekly_data IN SELECT ... LOOP\<close>. A row whose \<^verbatim>\<open>user_id\<close> is
  \<^verbatim>\<open>NULL\<close> never equals a given \<^verbatim>\<open>user_id_param\<close>.
\<close>

definition selected_by :: "int \<Rightarrow> string \<Rightarrow> string option \<Rightarrow> edit_analysis_row \<Rightarrow> bool" where
  "selected_by now pattern_value_param user_id_param ea =
     (edit_type ea = pattern_value_param
      \<and> created_at ea \<ge> current_date now - eight_weeks
      \<and> (user_id_param = None \<or> user_id ea = user_id_param))"

text \<open>The group of one week: the selected rows whose week starts at \<open>w\<close>.\<close>

definition week_group ::
  "int \<Rightarrow> string \<Rightarrow> string option \<Rightarrow> edit_analysis_row list \<Rightarrow> int \<Rightarrow> edit_analysis_row list" where
  "week_group now pattern_value_param user_id_param ea_table w =
     filter (\<lambda>ea. date_trunc_week (created_at ea) = w)
       (filter (selected_by now pattern_value_param user_id_param) ea_table)"

text \<open>
  The query: \<^verbatim>\<open>GROUP BY DATE_TRUNC('week', ea.created_at)\<close>,
  \<^verbatim>\<open>HAVING COUNT(*) >= 2\<close> and \<^verbatim>\<open>ORDER BY week_start\<close>, returning the rows
  \<open>(week_start, week_avg_success)\<close>.
\<close>

definition weekly_data ::
  "int \<Rightarrow> string \<Rightarrow> string option \<Rightarrow> edit_analysis_row list \<Rightarrow> (int \<times> real) list" where
  "weekly_data now pattern_value_param user_id_param ea_table =
     (let selected = filter (selected_by now pattern_value_param user_id_param) ea_table;
          week_starts = sort (remdups (map (\<lambda>ea. date_trunc_week (created_at ea)) selected));
          having = filter (\<lambda>w. length (week_group now pattern_value_param user_id_param
                                           ea_table w) \<ge> 2) week_starts
      in map (\<lambda>w. (w, avg (map (\<lambda>ea. real_of_int (success_score ea))
                              (week_group now pattern_value_param user_id_param ea_table w))))
           having)"

text \<open>
  The loop body
  \<^verbatim>\<open>success_rates := success_rates || weekly_data.week_avg_success::DECIMAL(5,2)\<close>.
\<close>

fun append_rates :: "real list \<Rightarrow> (int \<times> real) list \<Rightarrow> error + real list" where
  "append_rates success_rates [] = Inr success_rates"
| "append_rates success_rates ((week_start, week_avg_success) # rest) =
     (case to_decimal 5 2 week_avg_success of
        Inl e \<Rightarrow> Inl e
      | Inr rate \<Rightarrow> append_rates (success_rates @ [rate]) rest)"

text \<open>The whole function; \<^verbatim>\<open>pattern_type_param\<close> is not used by its body.\<close>

definition calculate_pattern_stability ::
  "int \<Rightarrow> string \<Rightarrow> string \<Rightarrow> string option \<Rightarrow> edit_analysis_row list
     \<Rightarrow> error + stability_data" where
  "calculate_pattern_stability now pattern_type_param pattern_value_param user_id_param ea_table =
     (case append_rates [] (weekly_data now pattern_value_param user_id_param ea_table) of
        Inl e \<Rightarrow> Inl e
      | Inr success_rates \<Rightarrow> pattern_stability success_rates)"

section \<open>The pattern record and the trigger \<^verbatim>\<open>update_learning_insights_with_stability\<close>\<close>

text \<open>
  Modelled from the spec: the column types of \<^verbatim>\<open>learning_insights\<close>, whose
  \<^verbatim>\<open>CREATE TABLE\<close> statement is not among the sources. Following the data model of
  the specification, \<^verbatim>\<open>frequency\<close>, \<^verbatim>\<open>confidence\<close>, \<^verbatim>\<open>sample_size\<close>
  and \<^verbatim>\<open>time_span_days\<close> are integers, \<^verbatim>\<open>success_rate\<close> is a number
  and no column is \<^verbatim>\<open>NULL\<close>; the stability columns have the types of the results
  of \<^verbatim>\<open>calculate_pattern_stability\<close>, as the \<^verbatim>\<open>ALTER TABLE\<close> statements of
  the scripts say. The table is keyed by \<open>(pattern_type, pattern_value)\<close>, the target of
  \<^verbatim>\<open>ON CONFLICT\<close>.

  The declared type of \<^verbatim>\<open>success_rate\<close> decides how a quotient is held: no type of
  PostgreSQL holds \<open>250 / 3\<close> exactly. The functions that write the column therefore take
  the rounding of the column as their first parameter \<open>store_rate\<close>: the number that the
  column holds for the exact value of the expression assigned to it. For a column
  \<^verbatim>\<open>DECIMAL(p,s)\<close> it is \<open>round_dec s\<close> (\<open>250 / 3\<close> is held as \<open>83.33\<close> when \<open>s = 2\<close>);
  for a \<^verbatim>\<open>NUMERIC\<close> column without a declared scale it is the rounding at the result
  scale of the numeric division (\<open>250 / 3\<close> is held as \<open>83.3333333333333333\<close>, the
  rounding \<open>round_dec 16\<close>). An integer is held exactly by every such type, and the column
  is taken to be wide enough for the rates.
\<close>

record learning_insight =
  frequency :: int
  success_rate :: real
  recommendation :: string
  confidence :: int
  sample_size :: int
  time_span_days :: int
  first_occurrence :: int
  threshold_met :: bool
  stability_score_col :: real
  pattern_variance_col :: real
  weekly_success_rates :: "real list"
  stability_validated :: bool
  pattern_drift_detected :: bool
  last_updated :: int

record database =
  edit_analyses :: "edit_analysis_row list"
  learning_insights :: "string \<times> string \<rightharpoonup> learning_insight"

text \<open>
  \<^verbatim>\<open>EXTRACT(DAY FROM (CURRENT_TIMESTAMP - first_occurrence))\<close>: the whole days of the
  difference, truncated towards zero.
\<close>

definition extract_day :: "int \<Rightarrow> int" where
  "extract_day d =
     (if 0 \<le> d then d div seconds_per_day else - ((- d) div seconds_per_day))"

text \<open>
  Modelled from the spec: the defaults of the stability columns of
  \<^verbatim>\<open>learning_insights\<close>, whose declarations are not among the sources. They are
  taken to be the neutral values of the specification.
\<close>

definition stability_column_defaults :: stability_data where
  "stability_column_defaults =
     \<lparr>stability_score = 0.5, pattern_variance = 0, weekly_rates = [],
      is_stable = False, drift_detected = False\<rparr>"

text \<open>
  The \<^verbatim>\<open>VALUES\<close> row of the \<^verbatim>\<open>INSERT\<close>. The stability columns are not
  listed there: they take their defaults, and the same trigger run overwrites them before
  it returns. \<^verbatim>\<open>last_updated\<close> is not listed either and is taken to default to the
  current time, the value that the update branch assigns.
\<close>

definition insert_values :: "int \<Rightarrow> edit_analysis_row \<Rightarrow> learning_insight" where
  "insert_values now NEW =
     \<lparr>frequency = 1,
      success_rate = real_of_int (success_score NEW),
      recommendation =
        (if success_score NEW \<ge> 75 then ''Current approach working well''
         else if success_score NEW \<ge> 50 then ''Minor adjustments needed''
         else ''Significant improvements required''),
      confidence = 50,
      sample_size = 1,
      time_span_days = 1,
      first_occurrence = now,
      threshold_met = False,
      stability_score_col = stability_score stability_column_defaults,
      pattern_variance_col = pattern_variance stability_column_defaults,
      weekly_success_rates = weekly_rates stability_column_defaults,
      stability_validated = is_stable stability_column_defaults,
      pattern_drift_detected = drift_detected stability_column_defaults,
      last_updated = now\<rparr>"

text \<open>
  The \<^verbatim>\<open>DO UPDATE SET\<close> list; \<open>li\<close> is the row in conflict. The quotient assigned
  to \<^verbatim>\<open>success_rate\<close> is stored as the column holds it, \<open>store_rate\<close> of its exact
  value; the score assigned in the other branch is an integer and is stored as it is.
\<close>

definition on_conflict_update ::
  "(real \<Rightarrow> real) \<Rightarrow> int \<Rightarrow> edit_analysis_row \<Rightarrow> learning_insight \<Rightarrow> learning_insight" where
  "on_conflict_update store_rate now NEW li =
     li\<lparr>frequency := max (frequency li + 1) 1,
        success_rate :=
          (if frequency li > 0 then
             store_rate
               ((success_rate li * real_of_int (frequency li) + real_of_int (success_score NEW))
                  / real_of_int (frequency li + 1))
           else real_of_int (success_score NEW)),
        confidence := min 90 (confidence li + 2),
        sample_size := frequency li + 1,
        time_span_days := max 1 (extract_day (now - first_occurrence li)),
        threshold_met :=
          (frequency li + 1 \<ge> 5 \<and>
           min 90 (confidence li + 2) \<ge> 65 \<and>
           max 1 (extract_day (now - first_occurrence li)) \<ge> 3),
        last_updated := now\<rparr>"

text \<open>
  The trigger function: the upsert, then the call of
  \<^verbatim>\<open>calculate_pattern_stability('edit_type', NEW.edit_type, NEW.user_id)\<close> and the
  \<^verbatim>\<open>UPDATE\<close> of the stability columns. An error raised inside aborts the trigger.
\<close>

definition update_learning_insights_with_stability ::
  "(real \<Rightarrow> real) \<Rightarrow> int \<Rightarrow> edit_analysis_row \<Rightarrow> database \<Rightarrow> error + database" where
  "update_learning_insights_with_stability store_rate now NEW db =
     (let key = (''edit_type'', edit_type NEW);
          upserted = (case learning_insights db key of
                        None \<Rightarrow> insert_values now NEW
                      | Some existing_insight \<Rightarrow>
                          on_conflict_update store_rate now NEW existing_insight)
      in case calculate_pattern_stability now ''edit_type'' (edit_type NEW) (user_id NEW)
                (edit_analyses db) of
           Inl e \<Rightarrow> Inl e
         | Inr stability \<Rightarrow>
             Inr (db\<lparr>learning_insights := (learning_insights db)(key \<mapsto>
                    upserted\<lparr>stability_score_col := stability_score stability,
                             pattern_variance_col := pattern_variance stability,
                             weekly_success_rates := weekly_rates stability,
                             stability_validated := is_stable stability,
                             pattern_drift_detected := drift_detected stability\<rparr>)\<rparr>))"

text \<open>
  Modelled from the spec: the binding of the trigger function to \<^verbatim>\<open>edit_analyses\<close>,
  whose \<^verbatim>\<open>CREATE TRIGGER\<close> statement is not among the sources. Following the
  specification (every successful record triggers the recomputation of the owning
  pattern), \<^verbatim>\<open>INSERT INTO edit_analyses\<close> appends the row and the trigger runs for
  it after the insert. When the trigger raises, the statement has no effect and the error
  goes to the client.
\<close>

definition insert_edit_analysis ::
  "(real \<Rightarrow> real) \<Rightarrow> int \<Rightarrow> edit_analysis_row \<Rightarrow> database \<Rightarrow> error + database" where
  "insert_edit_analysis store_rate now NEW db =
     update_learning_insights_with_stability store_rate now NEW
       (db\<lparr>edit_analyses := edit_analyses db @ [NEW]\<rparr>)"

text \<open>A run of insert statements, each at its own time; a failed statement changes nothing.\<close>

fun record_events ::
  "(real \<Rightarrow> real) \<Rightarrow> (int \<times> edit_analysis_row) list \<Rightarrow> database \<Rightarrow> database" where
  "record_events store_rate [] db = db"
| "record_events store_rate ((now, NEW) # rest) db =
     (case insert_edit_analysis store_rate now NEW db of
        Inl e \<Rightarrow> record_events store_rate rest db
      | Inr db' \<Rightarrow> record_events store_rate rest db')"

definition empty_database :: database where
  "empty_database = \<lparr>edit_analyses = [], learning_insights = Map.empty\<rparr>"

text \<open>The number of ledger rows of a pattern.\<close>

definition events_recorded :: "string \<Rightarrow> database \<Rightarrow> int" where
  "events_recorded pattern_value db =
     int (length (filter (\<lambda>ea. edit_type ea = pattern_value) (edit_analyses db)))"

text \<open>
  The invariant of the upsert: a pattern has a row exactly when the ledger holds rows of
  it, the row's frequency is their number, and its sample size equals its frequency.
\<close>

definition counts_consistent :: "database \<Rightarrow> bool" where
  "counts_consistent db =
     (\<forall>pt pv. case learning_insights db (pt, pv) of
        None \<Rightarrow> pt = ''edit_type'' \<longrightarrow> events_recorded pv db = 0
      | Some li \<Rightarrow> pt = ''edit_type'' \<and> frequency li = events_recorded pv db
                   \<and> sample_size li = frequency li)"

text \<open>The range of the confidence of the rows that the upsert creates and maintains.\<close>

definition confidence_capped :: "database \<Rightarrow> bool" where
  "confidence_capped db =
     (\<forall>key li. learning_insights db key = Some li \<longrightarrow> 50 \<le> confidence li \<and> confidence li \<le> 90)"

text \<open>Every row that the upsert creates and maintains counts at least one occurrence.\<close>

definition frequency_positive :: "database \<Rightarrow> bool" where
  "frequency_positive db =
     (\<forall>key li. learning_insights db key = Some li \<longrightarrow> 0 < frequency li)"

section \<open>The view \<^verbatim>\<open>validated_learning_insights_with_stability\<close>\<close>

datatype validation_status =
    FULLY_VALIDATED
  | THRESHOLD_MET_BUT_UNSTABLE
  | PATTERN_DRIFT_DETECTED
  | STABLE_BUT_INSUFFICIENT_DATA
  | INSUFFICIENT_CONFIDENCE
  | INSUFFICIENT_TIME_SPAN
  | INSUFFICIENT_SAMPLES
  | PENDING_VALIDATION

text \<open>The \<^verbatim>\<open>CASE ... END as validation_status\<close> column of the view.\<close>

definition validation_status_of :: "learning_insight \<Rightarrow> validation_status" where
  "validation_status_of li =
     (if threshold_met li \<and> stability_validated li \<and> \<not> pattern_drift_detected li
        then FULLY_VALIDATED
      else if threshold_met li \<and> \<not> stability_validated li then THRESHOLD_MET_BUT_UNSTABLE
      else if threshold_met li \<and> pattern_drift_detected li then PATTERN_DRIFT_DETECTED
      else if stability_validated li \<and> \<not> threshold_met li then STABLE_BUT_INSUFFICIENT_DATA
      else if sample_size li \<ge> 5 \<and> confidence li < 65 then INSUFFICIENT_CONFIDENCE
      else if sample_size li \<ge> 5 \<and> time_span_days li < 3 then INSUFFICIENT_TIME_SPAN
      else if sample_size li < 5 then INSUFFICIENT_SAMPLES
      else PENDING_VALIDATION)"

section \<open>The learning service: \<^verbatim>\<open>analyzeEdit\<close>\<close>

text \<open>
  JavaScript strings are modelled as lists of 8-bit characters, read as the code units
  below 256. Of these, the class \<^verbatim>\<open>\s\<close> and \<^verbatim>\<open>trim()\<close> treat as white space
  the tab, line feed, vertical tab, form feed, carriage return, space and no-break space.
\<close>

definition is_ws :: "char \<Rightarrow> bool" where
  "is_ws c = (of_char c \<in> {9, 10, 11, 12, 13, 32, 160 :: nat})"

definition trim :: "string \<Rightarrow> string" where
  "trim s = rev (dropWhile is_ws (rev (dropWhile is_ws s)))"

text \<open>
  \<^verbatim>\<open>s.split(/\s+/)\<close>: the pieces between the maximal runs of white space. A run at
  the start or at the end leaves an empty piece there, and the empty string splits into
  one empty piece.
\<close>

function split_ws :: "string \<Rightarrow> string list" where
  "split_ws [] = [Nil]"
| "split_ws (c # cs) =
     (if is_ws c then [] # split_ws (dropWhile is_ws cs)
      else (case split_ws cs of
              [] \<Rightarrow> [c # Nil]
            | w # ws \<Rightarrow> (c # w) # ws))"
  by pat_completeness auto
termination
  by (relation "measure length") (auto simp: length_dropWhile_le less_Suc_eq_le)

text \<open>
  The loop \<^verbatim>\<open>for (let i = 0; i < minLength; i++) if (originalWords[i] !==
  editedWords[i]) changes++\<close>, walking both word lists in step.
\<close>

fun word_changes :: "string list \<Rightarrow> string list \<Rightarrow> nat \<Rightarrow> nat" where
  "word_changes (a # originalWords) (b # editedWords) changes =
     word_changes originalWords editedWords (if a \<noteq> b then changes + 1 else changes)"
| "word_changes originalWords editedWords changes = changes"

text \<open>
  \<^verbatim>\<open>Math.round\<close> rounds to the nearest integer, ties upwards. The quotient
  \<^verbatim>\<open>(changes / maxLength) * 100\<close> is taken exact here; the source computes it in
  double precision.
\<close>

definition math_round :: "real \<Rightarrow> int" where
  "math_round x = \<lfloor>x + 1 / 2\<rfloor>"

definition calculateEditPercentage :: "string \<Rightarrow> string \<Rightarrow> nat" where
  "calculateEditPercentage original edited =
     (if original = edited then 0
      else if edited = [] \<or> trim edited = [] then 100
      else
        (let originalWords = split_ws original;
             editedWords = split_ws edited;
             changes0 = (if length originalWords \<ge> length editedWords
                         then length originalWords - length editedWords
                         else length editedWords - length originalWords);
             changes = word_changes originalWords editedWords changes0;
             maxLength = max (length originalWords) (length editedWords)
         in nat (min (math_round (real changes / real maxLength * 100)) 100)))"

definition calculateSuccessScore :: "nat \<Rightarrow> nat" where
  "calculateSuccessScore editPercentage =
     (if editPercentage = 0 then 100
      else if editPercentage \<le> 20 then 75
      else if editPercentage \<le> 70 then 25
      else 0)"

record EditAnalysis =
  responseId :: string
  originalText :: string
  editedText :: string
  editType :: string
  editPercentage :: nat
  editDescription :: string
  successScore :: nat
  learningInsight :: string

text \<open>What a rejected promise carries.\<close>

datatype js_error = QueryFailed error | ConnectionFailed | CompletionFailed

text \<open>
  The object that \<^verbatim>\<open>getAIEditAnalysis\<close> returns. The completion service is outside
  the repository: a function \<open>ai\<close> stands for the request followed by
  \<^verbatim>\<open>parseAIResponse\<close>, and may fail. Its result \<open>Inr\<close> is a parsed object that
  carries the three keys as strings; a reply from which \<^verbatim>\<open>parseAIResponse\<close> builds
  an object without them leaves the fields undefined in the source and is not covered.
\<close>

record ai_analysis =
  ai_editType :: string
  ai_description :: string
  ai_insight :: string

definition getAIEditAnalysis ::
  "(string \<Rightarrow> string \<Rightarrow> js_error + ai_analysis) \<Rightarrow> string \<Rightarrow> string \<Rightarrow> ai_analysis" where
  "getAIEditAnalysis ai original edited =
     (case ai original edited of
        Inr parsed \<Rightarrow> parsed
      | Inl e \<Rightarrow> \<lparr>ai_editType = ''mixed'', ai_description = ''Unable to analyze edit'',
                  ai_insight = ''Analysis failed''\<rparr>)"

text \<open>
  \<^verbatim>\<open>pool.query(query, [...])\<close> with the \<^verbatim>\<open>INSERT INTO edit_analyses\<close>
  statement. The connection pool is outside the repository: \<open>pool_query\<close> takes the state
  \<open>w\<close> of the storage layer and the values of the statement, and returns the outcome of
  the awaited promise with the next state. \<^verbatim>\<open>storeEditAnalysis\<close> wraps the call in
  \<^verbatim>\<open>try\<close>/\<^verbatim>\<open>catch\<close>; the handler logs the error and returns normally.
\<close>

definition storeEditAnalysis ::
  "('w \<Rightarrow> EditAnalysis \<times> string option \<Rightarrow> (js_error + unit) \<times> 'w)
     \<Rightarrow> EditAnalysis \<Rightarrow> string option \<Rightarrow> 'w \<Rightarrow> (js_error + unit) \<times> 'w" where
  "storeEditAnalysis pool_query analysis userId w =
     (case pool_query w (analysis, userId) of
        (Inr ok, w') \<Rightarrow> (Inr (), w')
      | (Inl e, w') \<Rightarrow> (Inr (), w'))"

text \<open>
  \<^verbatim>\<open>analyzeEdit\<close>. Its own \<^verbatim>\<open>catch\<close> logs and rethrows, so an error of an
  awaited call in the body is the result.
\<close>

definition analyzeEdit ::
  "(string \<Rightarrow> string \<Rightarrow> js_error + ai_analysis)
     \<Rightarrow> ('w \<Rightarrow> EditAnalysis \<times> string option \<Rightarrow> (js_error + unit) \<times> 'w)
     \<Rightarrow> string \<Rightarrow> string \<Rightarrow> string \<Rightarrow> string option \<Rightarrow> 'w
     \<Rightarrow> (js_error + EditAnalysis) \<times> 'w" where
  "analyzeEdit ai pool_query response_id_arg original edited userId w =
     (let edit_pct = calculateEditPercentage original edited;
          aiAnalysis = getAIEditAnalysis ai original edited;
          score = calculateSuccessScore edit_pct;
          analysis = \<lparr>responseId = response_id_arg, originalText = original,
                      editedText = edited, editType = ai_editType aiAnalysis,
                      editPercentage = edit_pct,
                      editDescription = ai_description aiAnalysis,
                      successScore = score,
                      learningInsight = ai_insight aiAnalysis\<rparr>
      in case storeEditAnalysis pool_query analysis userId w of
           (Inl e, w') \<Rightarrow> (Inl e, w')
         | (Inr ok, w') \<Rightarrow> (Inr analysis, w'))"

text \<open>
  Two storage layers. The first is the database of this development: the statement runs
  \<open>insert_edit_analysis\<close> at time \<open>now\<close>, \<^verbatim>\<open>created_at\<close> taking its default, the
  current time. The second cannot be reached and rejects every statement.
\<close>

definition pg_pool_query ::
  "(real \<Rightarrow> real) \<Rightarrow> int \<Rightarrow> database \<Rightarrow> EditAnalysis \<times> string option
     \<Rightarrow> (js_error + unit) \<times> database" where
  "pg_pool_query store_rate now db params =
     (case params of (analysis, userId) \<Rightarrow>
        (case insert_edit_analysis store_rate now
                \<lparr>response_id = responseId analysis,
                 original_text = originalText analysis,
                 edited_text = editedText analysis,
                 edit_type = editType analysis,
                 edit_percentage = editPercentage analysis,
                 edit_description = editDescription analysis,
                 success_score = int (successScore analysis),
                 learning_insight = learningInsight analysis,
                 user_id = userId,
                 created_at = now\<rparr> db of
           Inl e \<Rightarrow> (Inl (QueryFailed e), db)
         | Inr db' \<Rightarrow> (Inr (), db')))"

definition unreachable_pool_query ::
  "database \<Rightarrow> EditAnalysis \<times> string option \<Rightarrow> (js_error + unit) \<times> database" where
  "unreachable_pool_query db params = (Inl ConnectionFailed, db)"

definition no_ai :: "string \<Rightarrow> string \<Rightarrow> js_error + ai_analysis" where
  "no_ai original edited = Inl CompletionFailed"

section \<open>The specification's formulas\<close>

text \<open>
  The definitions of this section follow the words of the specification, not the source;
  the theorems compare them with the functions above.
\<close>

text \<open>Threshold validator: all three hard minimums.\<close>

definition spec_thresholdMet :: "int \<Rightarrow> int \<Rightarrow> int \<Rightarrow> bool" where
  "spec_thresholdMet sampleSize conf timeSpanDays =
     (sampleSize \<ge> 5 \<and> conf \<ge> 65 \<and> timeSpanDays \<ge> 3)"

text \<open>
  Drift as the specification words it: the most recent week's average against the mean of
  all prior weeks.
\<close>

definition spec_drift :: "real list \<Rightarrow> bool" where
  "spec_drift weeklyAverages =
     (\<bar>last weeklyAverages - avg (butlast weeklyAverages)\<bar> > 20)"

text \<open>Stability as the specification words it, on the exact mean and population variance.\<close>

definition population_variance :: "real list \<Rightarrow> real" where
  "population_variance xs = avg (map (\<lambda>x. (x - avg xs) ^ 2) xs)"

definition spec_stabilityScore :: "real list \<Rightarrow> real" where
  "spec_stabilityScore weeklyAverages =
     (if avg weeklyAverages > 0
      then max 0 (min 1 (1 - sqrt (population_variance weeklyAverages) / avg weeklyAverages))
      else 0)"

text \<open>
  The eight status conditions in the order of the specification, and the first-match rule
  with \<open>PENDING_VALIDATION\<close> as the fallback.
\<close>

definition spec_status_rules :: "(validation_status \<times> (learning_insight \<Rightarrow> bool)) list" where
  "spec_status_rules =
     [(FULLY_VALIDATED,
         \<lambda>li. threshold_met li \<and> stability_validated li \<and> \<not> pattern_drift_detected li),
      (THRESHOLD_MET_BUT_UNSTABLE, \<lambda>li. threshold_met li \<and> \<not> stability_validated li),
      (PATTERN_DRIFT_DETECTED, \<lambda>li. threshold_met li \<and> pattern_drift_detected li),
      (STABLE_BUT_INSUFFICIENT_DATA, \<lambda>li. stability_validated li \<and> \<not> threshold_met li),
      (INSUFFICIENT_CONFIDENCE, \<lambda>li. sample_size li \<ge> 5 \<and> confidence li < 65),
      (INSUFFICIENT_TIME_SPAN,
         \<lambda>li. sample_size li \<ge> 5 \<and> confidence li \<ge> 65 \<and> time_span_days li < 3),
      (INSUFFICIENT_SAMPLES, \<lambda>li. sample_size li < 5),
      (PENDING_VALIDATION, \<lambda>li. True)]"

fun first_match ::
  "(validation_status \<times> (learning_insight \<Rightarrow> bool)) list \<Rightarrow> learning_insight
     \<Rightarrow> validation_status" where
  "first_match [] li = PENDING_VALIDATION"
| "first_match ((status, condition) # rules) li =
     (if condition li then status else first_match rules li)"

section \<open>Sample data\<close>

text \<open>
  The row that the test scripts insert into \<^verbatim>\<open>edit_analyses\<close>, for a given pattern,
  score and time, and a pattern record with chosen values in the columns that the view and
  the upsert read.
\<close>

definition test_row :: "string \<Rightarrow> int \<Rightarrow> int \<Rightarrow> edit_analysis_row" where
  "test_row pattern score t =
     \<lparr>response_id = ''test-trigger-fix'', original_text = ''Test original text'',
      edited_text = ''Test edited text'', edit_type = pattern, edit_percentage = 0,
      edit_description = [], success_score = score, learning_insight = [],
      user_id = None, created_at = t\<rparr>"

definition test_insight ::
  "int \<Rightarrow> int \<Rightarrow> int \<Rightarrow> bool \<Rightarrow> bool \<Rightarrow> bool \<Rightarrow> learning_insight" where
  "test_insight samples conf days met validated drifting =
     \<lparr>frequency = samples, success_rate = 75, recommendation = [], confidence = conf,
      sample_size = samples, time_span_days = days, first_occurrence = 0,
      threshold_met = met, stability_score_col = 0.5, pattern_variance_col = 0,
      weekly_success_rates = [], stability_validated = validated,
      pattern_drift_detected = drifting, last_updated = 0\<rparr>"

section \<open>Verification\<close>

lemma test_insight_sel:
  "sample_size (test_insight n c d m v g) = n"
  "confidence (test_insight n c d m v g) = c"
  "time_span_days (test_insight n c d m v g) = d"
  "threshold_met (test_insight n c d m v g) = m"
  "stability_validated (test_insight n c d m v g) = v"
  "pattern_drift_detected (test_insight n c d m v g) = g"
  "frequency (test_insight n c d m v g) = n"
  "success_rate (test_insight n c d m v g) = 75"
  by (simp_all add: test_insight_def)

subsection \<open>Fewer than three qualifying weeks\<close>

text \<open>
  C6. For every series of weekly averages with fewer than 3 entries, the empty series
  included, the stability analysis returns exactly the neutral default: stability score
  0.5, variance 0, not stable, no drift (and the series itself as the weekly rates). No
  error is possible on this path.
\<close>

theorem insufficient_weeks_default:
  "length success_rates < 3 \<Longrightarrow>
     pattern_stability success_rates =
       Inr \<lparr>stability_score = 0.5, pattern_variance = 0, weekly_rates = success_rates,
            is_stable = False, drift_detected = False\<rparr>"
  by (simp add: pattern_stability_def)

theorem insufficient_weeks_default_witness:
  "length [85, 90 :: real] < 3 \<and>
     pattern_stability [85, 90] =
       Inr \<lparr>stability_score = 0.5, pattern_variance = 0, weekly_rates = [85, 90],
            is_stable = False, drift_detected = False\<rparr> \<and>
   length ([] :: real list) < 3 \<and>
     pattern_stability [] =
       Inr \<lparr>stability_score = 0.5, pattern_variance = 0, weekly_rates = [],
            is_stable = False, drift_detected = False\<rparr>"
  using insufficient_weeks_default [of "[85, 90]"] insufficient_weeks_default [of "[]"]
  by simp

subsection \<open>The threshold gate\<close>

text \<open>
  C3. The threshold flag that the upsert stores is true if and only if the stored sample
  size is at least 5, the stored confidence at least 65 and the stored time span at least
  3 days, on the update branch and on the insert branch alike. At the boundary: an update
  that brings a row to (5, 65, 3) stores true; the updates that bring it to (4, 65, 3),
  (5, 64, 3) and (5, 65, 2) store false.
\<close>

theorem threshold_met_three_minimums:
  "threshold_met (on_conflict_update store_rate now NEW li) =
     spec_thresholdMet (sample_size (on_conflict_update store_rate now NEW li))
       (confidence (on_conflict_update store_rate now NEW li))
       (time_span_days (on_conflict_update store_rate now NEW li))
   \<and> threshold_met (insert_values now NEW) =
     spec_thresholdMet (sample_size (insert_values now NEW))
       (confidence (insert_values now NEW)) (time_span_days (insert_values now NEW))
   \<and> spec_thresholdMet 5 65 3
   \<and> \<not> spec_thresholdMet 4 65 3 \<and> \<not> spec_thresholdMet 5 64 3 \<and> \<not> spec_thresholdMet 5 65 2
   \<and> (let r = on_conflict_update store_rate (3 * 86400) NEW
                (test_insight 4 63 1 False False False)
      in sample_size r = 5 \<and> confidence r = 65 \<and> time_span_days r = 3 \<and> threshold_met r)
   \<and> (let r = on_conflict_update store_rate (3 * 86400) NEW
                (test_insight 3 63 1 False False False)
      in sample_size r = 4 \<and> confidence r = 65 \<and> time_span_days r = 3 \<and> \<not> threshold_met r)
   \<and> (let r = on_conflict_update store_rate (3 * 86400) NEW
                (test_insight 4 62 1 False False False)
      in sample_size r = 5 \<and> confidence r = 64 \<and> time_span_days r = 3 \<and> \<not> threshold_met r)
   \<and> (let r = on_conflict_update store_rate (3 * 86400 - 1) NEW
                (test_insight 4 63 1 False False False)
      in sample_size r = 5 \<and> confidence r = 65 \<and> time_span_days r = 2 \<and> \<not> threshold_met r)"
  by (simp add: on_conflict_update_def insert_values_def spec_thresholdMet_def test_insight_def
      extract_day_def seconds_per_day_def)

subsection \<open>The validation status\<close>

text \<open>
  C4, as amended. The status column is the first match of the eight conditions in the
  order of the specification. A row with the threshold met, stability validated and no
  drift is \<open>FULLY_VALIDATED\<close>. A row with the threshold met and drift detected is never
  \<open>FULLY_VALIDATED\<close>: it is \<open>PATTERN_DRIFT_DETECTED\<close> when its stability is validated
  and \<open>THRESHOLD_MET_BUT_UNSTABLE\<close> when it is not, because that condition comes first.
  The status depends on six columns only.
\<close>

theorem validation_status_precedence:
  "validation_status_of li = first_match spec_status_rules li
   \<and> (threshold_met li \<and> stability_validated li \<and> \<not> pattern_drift_detected li
        \<longrightarrow> validation_status_of li = FULLY_VALIDATED)
   \<and> (threshold_met li \<and> pattern_drift_detected li
        \<longrightarrow> validation_status_of li =
              (if stability_validated li then PATTERN_DRIFT_DETECTED
               else THRESHOLD_MET_BUT_UNSTABLE)
            \<and> validation_status_of li \<noteq> FULLY_VALIDATED)
   \<and> (threshold_met li = threshold_met li' \<and> stability_validated li = stability_validated li'
        \<and> pattern_drift_detected li = pattern_drift_detected li'
        \<and> sample_size li = sample_size li' \<and> confidence li = confidence li'
        \<and> time_span_days li = time_span_days li'
        \<longrightarrow> validation_status_of li = validation_status_of li')"
  by (simp add: validation_status_of_def spec_status_rules_def)

theorem validation_status_precedence_witness:
  "validation_status_of (test_insight 8 70 30 True True False) = FULLY_VALIDATED
   \<and> validation_status_of (test_insight 8 70 30 True True True) = PATTERN_DRIFT_DETECTED
   \<and> validation_status_of (test_insight 8 70 30 True False True) = THRESHOLD_MET_BUT_UNSTABLE
   \<and> validation_status_of (test_insight 8 70 30 True True False) =
       validation_status_of ((test_insight 8 70 30 True True False)\<lparr>frequency := 9\<rparr>)"
  using validation_status_precedence
          [of "test_insight 8 70 30 True True False"
              "(test_insight 8 70 30 True True False)\<lparr>frequency := 9\<rparr>", THEN conjunct2]
        validation_status_precedence
          [of "test_insight 8 70 30 True True True" "test_insight 8 70 30 True True True",
           THEN conjunct2]
        validation_status_precedence
          [of "test_insight 8 70 30 True False True" "test_insight 8 70 30 True False True",
           THEN conjunct2]
  by (auto simp: test_insight_sel)

text \<open>
  The claim as first stated fails: a row with the threshold met and drift detected, whose
  stability is not validated, is not reported as \<open>PATTERN_DRIFT_DETECTED\<close>.
\<close>

theorem drift_reported_as_unstable_counterexample:
  "threshold_met (test_insight 8 70 30 True False True)
   \<and> pattern_drift_detected (test_insight 8 70 30 True False True)
   \<and> validation_status_of (test_insight 8 70 30 True False True) \<noteq> PATTERN_DRIFT_DETECTED"
  by (simp add: validation_status_of_def test_insight_def)

subsection \<open>Rounding and the results of the stability analysis\<close>

lemmas numeric_defs = to_decimal_def round_dec_def round_half_away_def avg_def

lemmas stability_defs = pattern_stability_def mean_rate_of_def variance_calc_of_def
  stability_calc_of_def drift_detected_calc_of_def

lemma to_decimal_Inr: "to_decimal p s x = Inr r \<Longrightarrow> r = round_dec s x"
  by (simp add: to_decimal_def Let_def split: if_splits)

lemma round_half_away_error: "\<bar>real_of_int (round_half_away y) - y\<bar> \<le> 1 / 2"
proof -
  have fl: "real_of_int \<lfloor>z\<rfloor> \<le> z \<and> z < real_of_int \<lfloor>z\<rfloor> + 1" for z :: real
    by linarith
  show ?thesis
  proof (cases "0 \<le> y")
    case True
    then have "round_half_away y = \<lfloor>y + 1 / 2\<rfloor>"
      by (simp add: round_half_away_def)
    with fl [of "y + 1 / 2"] show ?thesis by linarith
  next
    case False
    then have "round_half_away y = - \<lfloor>- y + 1 / 2\<rfloor>"
      by (simp add: round_half_away_def)
    with fl [of "- y + 1 / 2"] show ?thesis by (simp only: of_int_minus) linarith
  qed
qed

lemma round_dec_error: "\<bar>round_dec s x - x\<bar> \<le> 1 / (2 * 10 ^ s)"
proof -
  have "\<bar>round_dec s x - x\<bar> = \<bar>real_of_int (round_half_away (x * 10 ^ s)) - x * 10 ^ s\<bar> / 10 ^ s"
    by (simp add: round_dec_def field_simps abs_divide abs_mult flip: abs_mult)
  also have "\<dots> \<le> (1 / 2) / 10 ^ s"
    by (intro divide_right_mono round_half_away_error) simp
  finally show ?thesis by simp
qed

lemma clamp_lipschitz:
  "\<bar>max 0 (min 1 a) - max 0 (min 1 b)\<bar> \<le> \<bar>a - b\<bar>" for a b :: real
  by (auto simp: max_def min_def)

lemma pattern_stability_InrD:
  assumes "pattern_stability rates = Inr r" and "3 \<le> length rates"
  obtains m v s d where
    "mean_rate_of rates = Inr m" "variance_calc_of rates m = Inr v"
    "stability_calc_of m v = Inr s" "drift_detected_calc_of rates = Inr d"
    "r = \<lparr>stability_score = s, pattern_variance = v, weekly_rates = rates,
          is_stable = (s \<ge> 0.7), drift_detected = d\<rparr>"
  using assms by (auto simp: pattern_stability_def Let_def split: sum.splits)

lemma drift_detected_calc_of_InrD:
  assumes "drift_detected_calc_of rates = Inr d"
  shows "d = (4 \<le> length rates \<and>
      20 < \<bar>round_dec 3 (avg (drop (length rates - 2) rates))
            - round_dec 3 (avg (take (length rates - 2) rates))\<bar>)"
  using assms
  by (auto simp: drift_detected_calc_of_def Let_def dest!: to_decimal_Inr split: if_splits sum.splits)

lemma stability_calc_of_InrD:
  assumes "stability_calc_of m v = Inr s"
  shows "s = (if m > 0 then max 0 (min 1 (round_dec 3 (1 - sqrt v / m))) else 0)"
  using assms
  by (auto simp: stability_calc_of_def dest!: to_decimal_Inr split: if_splits sum.splits)

lemma sqrt_400: "sqrt 400 = 20"
  by (rule real_sqrt_unique) simp_all

lemma sqrt_1600: "sqrt 1600 = 40"
  by (rule real_sqrt_unique) simp_all

lemma pattern_stability_alternating: "pattern_stability [20, 60, 20, 60] =
       Inr \<lparr>stability_score = 0.5, pattern_variance = 400, weekly_rates = [20, 60, 20, 60],
            is_stable = False, drift_detected = False\<rparr>"
  by (simp add: stability_defs numeric_defs sqrt_400)

lemma pattern_stability_step: "pattern_stability [10, 10, 90, 90] =
       Inr \<lparr>stability_score = 0.2, pattern_variance = 1600, weekly_rates = [10, 10, 90, 90],
            is_stable = False, drift_detected = True\<rparr>"
  by (simp add: stability_defs numeric_defs sqrt_1600)

lemma pattern_stability_thirds: "pattern_stability [2, 4, 2, 4] =
       Inr \<lparr>stability_score = 0.667, pattern_variance = 1, weekly_rates = [2, 4, 2, 4],
            is_stable = False, drift_detected = False\<rparr>"
  by (simp add: stability_defs numeric_defs)

lemma sqrt_9: "sqrt 9 = 3"
  by (rule real_sqrt_unique) simp_all

lemma pattern_stability_borderline:
  "pattern_stability [699 / 100, 1299 / 100, 699 / 100, 1299 / 100] =
     Inr \<lparr>stability_score = 0.7, pattern_variance = 9,
          weekly_rates = [699 / 100, 1299 / 100, 699 / 100, 1299 / 100],
          is_stable = True, drift_detected = False\<rparr>"
  by (simp add: stability_defs numeric_defs sqrt_9)

text \<open>
  No overflow on the scores that occur: on a series of at most 4000 weekly rates between 0
  and 101 every assignment of the stability analysis fits its declared type, so the
  function returns a row. For the score this rests on the bound of the sum of the squares
  of non-negative numbers by the square of their sum.
\<close>

lemma sum_list_lower: "\<forall>x\<in>set xs. a \<le> x \<Longrightarrow> a * real (length xs) \<le> sum_list xs" for a :: real
  by (induction xs) (auto simp: algebra_simps)

lemma sum_list_upper: "\<forall>x\<in>set xs. x \<le> b \<Longrightarrow> sum_list xs \<le> b * real (length xs)" for b :: real
  by (induction xs) (auto simp: algebra_simps)

lemma avg_bounds:
  assumes "xs \<noteq> []" and "\<forall>x\<in>set xs. a \<le> x \<and> x \<le> b"
  shows "a \<le> avg xs \<and> avg xs \<le> b"
proof -
  have n: "0 < real (length xs)" using assms(1) by simp
  from assms(2) have "a * real (length xs) \<le> sum_list xs" "sum_list xs \<le> b * real (length xs)"
    by (simp_all add: sum_list_lower sum_list_upper)
  with n show ?thesis
    by (simp add: avg_def pos_le_divide_eq pos_divide_le_eq)
qed

lemma round_dec_nonneg: "0 \<le> x \<Longrightarrow> 0 \<le> round_dec s x"
  by (simp add: round_dec_def round_half_away_def)

lemma round_dec_3_bounds: "x - 1 / 2000 \<le> round_dec 3 x \<and> round_dec 3 x \<le> x + 1 / 2000"
proof -
  from round_dec_error [of 3 x] have "\<bar>round_dec 3 x - x\<bar> \<le> 1 / 2000" by simp
  then show ?thesis by linarith
qed

lemma round_dec_pos_ge:
  assumes "0 < round_dec s x"
  shows "1 / 10 ^ s \<le> round_dec s x"
proof -
  from assms have "0 < real_of_int (round_half_away (x * 10 ^ s))"
    by (simp add: round_dec_def zero_less_divide_iff)
  then have "0 < round_half_away (x * 10 ^ s)"
    by simp
  then have "1 \<le> round_half_away (x * 10 ^ s)"
    by simp
  then have "1 \<le> real_of_int (round_half_away (x * 10 ^ s))"
    by simp
  then show ?thesis
    by (simp add: round_dec_def divide_right_mono)
qed

lemma to_decimal_InrI:
  assumes "\<bar>x\<bar> + 1 / (2 * 10 ^ s) < 10 ^ (p - s)"
  shows "to_decimal p s x = Inr (round_dec s x)"
proof -
  from round_dec_error [of s x] have "\<bar>round_dec s x\<bar> \<le> \<bar>x\<bar> + 1 / (2 * 10 ^ s)"
    by linarith
  with assms show ?thesis
    by (simp add: to_decimal_def)
qed

lemma sum_squares_le:
  "\<forall>x\<in>set xs. 0 \<le> x \<Longrightarrow> sum_list (map (\<lambda>x. x\<^sup>2) xs) \<le> (sum_list xs)\<^sup>2" for xs :: "real list"
proof (induction xs)
  case Nil
  then show ?case by simp
next
  case (Cons x xs)
  then have "0 \<le> x" "0 \<le> sum_list xs"
    by (simp_all add: sum_list_nonneg)
  then have "0 \<le> 2 * x * sum_list xs" by simp
  with Cons show ?case
    by (simp add: power2_sum)
qed

lemma sum_squared_deviations:
  "sum_list (map (\<lambda>x. (x - m)\<^sup>2) xs) =
     sum_list (map (\<lambda>x. x\<^sup>2) xs) - 2 * m * sum_list xs + real (length xs) * m\<^sup>2" for m :: real
  by (induction xs) (simp_all add: power2_diff algebra_simps)

lemma mean_rate_of_returns:
  assumes "rates \<noteq> []" and "\<forall>x\<in>set rates. 0 \<le> x \<and> x \<le> 101"
  shows "mean_rate_of rates = Inr (round_dec 3 (avg rates))"
proof -
  from avg_bounds [OF assms] have "\<bar>avg rates\<bar> \<le> 101" by simp
  then show ?thesis
    unfolding mean_rate_of_def by (intro to_decimal_InrI) simp
qed

lemma trend_returns:
  assumes "xs \<noteq> []" and "\<forall>x\<in>set xs. 0 \<le> x \<and> x \<le> 101"
  shows "to_decimal 8 3 (avg xs) = Inr (round_dec 3 (avg xs))"
  using mean_rate_of_returns [OF assms] by (simp add: mean_rate_of_def)

lemma drift_detected_calc_of_returns:
  assumes "\<forall>x\<in>set rates. 0 \<le> x \<and> x \<le> 101"
  shows "\<exists>d. drift_detected_calc_of rates = Inr d"
proof (cases "4 \<le> length rates")
  case True
  then have ne: "drop (length rates - 2) rates \<noteq> []" "take (length rates - 2) rates \<noteq> []"
    by auto
  have "\<forall>x\<in>set (drop (length rates - 2) rates). 0 \<le> x \<and> x \<le> 101"
    using assms by (meson in_set_dropD)
  from trend_returns [OF ne(1) this]
  have r: "to_decimal 8 3 (avg (drop (length rates - 2) rates)) =
      Inr (round_dec 3 (avg (drop (length rates - 2) rates)))" .
  have "\<forall>x\<in>set (take (length rates - 2) rates). 0 \<le> x \<and> x \<le> 101"
    using assms by (meson in_set_takeD)
  from trend_returns [OF ne(2) this]
  have h: "to_decimal 8 3 (avg (take (length rates - 2) rates)) =
      Inr (round_dec 3 (avg (take (length rates - 2) rates)))" .
  from True show ?thesis
    by (simp add: drift_detected_calc_of_def Let_def r h)
next
  case False
  then show ?thesis
    by (auto simp: drift_detected_calc_of_def)
qed

lemma variance_calc_of_returns:
  assumes ne: "rates \<noteq> []" and rng: "\<forall>x\<in>set rates. 0 \<le> x \<and> x \<le> 101"
    and m: "0 \<le> m" "m \<le> 102"
  shows "variance_calc_of rates m =
     Inr (round_dec 3 (avg (map (\<lambda>rate. (rate - m)\<^sup>2) rates)))"
proof -
  have "\<forall>y\<in>set (map (\<lambda>rate. (rate - m)\<^sup>2) rates). 0 \<le> y \<and> y \<le> 102\<^sup>2"
  proof
    fix y assume "y \<in> set (map (\<lambda>rate. (rate - m)\<^sup>2) rates)"
    then obtain x where x: "x \<in> set rates" and y: "y = (x - m)\<^sup>2" by auto
    from x rng m have "\<bar>x - m\<bar> \<le> 102" by (auto simp: abs_le_iff)
    then have "(x - m)\<^sup>2 \<le> 102\<^sup>2"
      by (metis abs_ge_zero power2_abs power_mono)
    with y show "0 \<le> y \<and> y \<le> 102\<^sup>2" by simp
  qed
  from avg_bounds [OF _ this] ne
  have "\<bar>avg (map (\<lambda>rate. (rate - m)\<^sup>2) rates)\<bar> \<le> 102\<^sup>2"
    by simp
  then show ?thesis
    unfolding variance_calc_of_def by (intro to_decimal_InrI) simp
qed

lemma stability_calc_of_returns:
  assumes ne: "rates \<noteq> []" and rng: "\<forall>x\<in>set rates. 0 \<le> x \<and> x \<le> 101"
    and len: "length rates \<le> 4000"
    and m: "m = round_dec 3 (avg rates)"
    and v: "v = round_dec 3 (avg (map (\<lambda>rate. (rate - m)\<^sup>2) rates))"
  shows "\<exists>s. stability_calc_of m v = Inr s"
proof (cases "0 < m")
  case False
  then show ?thesis by (simp add: stability_calc_of_def)
next
  case True
  define n where "n = real (length rates)"
  define \<mu> where "\<mu> = avg rates"
  define V where "V = avg (map (\<lambda>rate. (rate - m)\<^sup>2) rates)"
  have n: "1 \<le> n" "n \<le> 4000"
    using ne len by (simp_all add: n_def Suc_le_eq)
  have m3: "1 / 1000 \<le> m"
    using round_dec_pos_ge [of 3 "avg rates"] True m by simp
  have \<mu>0: "0 \<le> \<mu>"
    using avg_bounds [OF ne rng] by (simp add: \<mu>_def)
  have "m - 1 / 2000 \<le> \<mu> \<and> \<mu> \<le> m + 1 / 2000"
    using round_dec_3_bounds [of "avg rates"] by (simp add: m \<mu>_def)
  with m3 have \<mu>m: "\<mu> \<le> 3 / 2 * m"
    by linarith
  have sum: "sum_list rates = n * \<mu>"
    using n by (simp add: \<mu>_def avg_def n_def)
  have "sum_list (map (\<lambda>x. x\<^sup>2) rates) \<le> (n * \<mu>)\<^sup>2"
    using sum_squares_le [of rates] rng sum by simp
  then have "n * V \<le> (n * \<mu>)\<^sup>2 - 2 * m * (n * \<mu>) + n * m\<^sup>2"
    using n sum_squared_deviations [of m rates] sum
    by (simp add: V_def avg_def n_def)
  also have "\<dots> \<le> (n * \<mu>)\<^sup>2 + n * m\<^sup>2"
    using True \<mu>0 n by simp
  finally have "n * V \<le> n * (n * \<mu>\<^sup>2 + m\<^sup>2)"
    by (simp add: power2_eq_square algebra_simps)
  then have V1: "V \<le> n * \<mu>\<^sup>2 + m\<^sup>2"
    using n by simp
  have "\<mu>\<^sup>2 \<le> (3 / 2 * m)\<^sup>2"
    using \<mu>0 \<mu>m by (intro power_mono) simp_all
  then have "n * \<mu>\<^sup>2 \<le> 4000 * (3 / 2 * m)\<^sup>2"
    using n by (intro mult_mono) simp_all
  with V1 have V2: "V \<le> 9001 * m\<^sup>2"
    by (simp add: power2_eq_square)
  have "(1 / 1000)\<^sup>2 \<le> m\<^sup>2"
    using m3 by (intro power_mono) simp_all
  then have m2: "1 / 2000 \<le> 500 * m\<^sup>2"
    by (simp add: power2_eq_square)
  have V0: "0 \<le> V"
    unfolding V_def avg_def by (intro divide_nonneg_nonneg sum_list_nonneg) auto
  have v0: "0 \<le> v"
    using round_dec_nonneg [OF V0] by (simp add: v V_def)
  have "v \<le> V + 1 / 2000"
    using round_dec_3_bounds [of V] by (simp add: v V_def)
  with V2 m2 have "v \<le> (100 * m)\<^sup>2"
    by (simp add: power2_eq_square)
  then have "sqrt v \<le> 100 * m"
    using True by (intro real_le_lsqrt) simp_all
  then have q: "sqrt v / m \<le> 100"
    using True by (simp add: pos_divide_le_eq)
  have q0: "0 \<le> sqrt v / m"
    using v0 True by simp
  from q q0 have "\<bar>1 - sqrt v / m\<bar> \<le> 99"
    by (simp add: abs_le_iff)
  then have "to_decimal 5 3 (1 - sqrt v / m) = Inr (round_dec 3 (1 - sqrt v / m))"
    by (intro to_decimal_InrI) simp
  with True show ?thesis
    by (simp add: stability_calc_of_def)
qed

lemma pattern_stability_returns:
  assumes rng: "\<forall>x\<in>set rates. 0 \<le> x \<and> x \<le> 101" and len: "length rates \<le> 4000"
  shows "\<exists>r. pattern_stability rates = Inr r"
proof (cases "length rates < 3")
  case True
  then show ?thesis by (simp add: pattern_stability_def)
next
  case False
  then have ne: "rates \<noteq> []" by auto
  define m where "m = round_dec 3 (avg rates)"
  define v where "v = round_dec 3 (avg (map (\<lambda>rate. (rate - m)\<^sup>2) rates))"
  have mr: "mean_rate_of rates = Inr m"
    using mean_rate_of_returns [OF ne rng] by (simp add: m_def)
  have "0 \<le> m" "m \<le> 102"
    using avg_bounds [OF ne rng] round_dec_nonneg [of "avg rates" 3]
      round_dec_3_bounds [of "avg rates"]
    by (simp_all add: m_def)
  from variance_calc_of_returns [OF ne rng this]
  have vr: "variance_calc_of rates m = Inr v"
    by (simp add: v_def)
  from stability_calc_of_returns [OF ne rng len m_def v_def]
  obtain s where sr: "stability_calc_of m v = Inr s" ..
  from drift_detected_calc_of_returns [OF rng]
  obtain d where dr: "drift_detected_calc_of rates = Inr d" ..
  from False mr vr sr dr show ?thesis
    by (simp add: pattern_stability_def)
qed


text \<open>
  The three series of the specification's test scenarios: a stable one, an unstable one
  and a declining one. The declining series is flagged as drifting and is not stable.
\<close>

lemma round_dec_eqI:
  assumes "0 \<le> x" and "real_of_int k - 1 / 2 \<le> x * 10 ^ s" and "x * 10 ^ s < real_of_int k + 1 / 2"
  shows "round_dec s x = real_of_int k / 10 ^ s"
proof -
  have "0 \<le> x * 10 ^ s" using assms(1) by simp
  then have "round_half_away (x * 10 ^ s) = \<lfloor>x * 10 ^ s + 1 / 2\<rfloor>"
    by (simp add: round_half_away_def)
  also have "\<dots> = k"
    using assms(2,3) by (intro floor_unique) linarith+
  finally show ?thesis by (simp add: round_dec_def)
qed

lemma pattern_stability_eqI:
  assumes "3 \<le> length rates"
    and "mean_rate_of rates = Inr m"
    and "variance_calc_of rates m = Inr v"
    and "stability_calc_of m v = Inr s"
    and "drift_detected_calc_of rates = Inr d"
  shows "pattern_stability rates =
     Inr \<lparr>stability_score = s, pattern_variance = v, weekly_rates = rates,
          is_stable = (s \<ge> 0.7), drift_detected = d\<rparr>"
  using assms by (simp add: pattern_stability_def)

lemma stability_calc_of_eqI:
  assumes "0 < m" and "0 \<le> 1 - sqrt v / m"
    and "real_of_int k - 1 / 2 \<le> (1 - sqrt v / m) * 1000"
    and "(1 - sqrt v / m) * 1000 < real_of_int k + 1 / 2"
    and "0 \<le> k" and "k \<le> 1000"
  shows "stability_calc_of m v = Inr (real_of_int k / 1000)"
proof -
  have "round_dec 3 (1 - sqrt v / m) = real_of_int k / 10 ^ 3"
    using assms(2,3,4) by (intro round_dec_eqI) simp_all
  then have r: "round_dec 3 (1 - sqrt v / m) = real_of_int k / 1000"
    by simp
  have "\<bar>real_of_int k / 1000\<bar> < 10 ^ (5 - 3)"
    using assms(5,6) by simp
  with r have "to_decimal 5 3 (1 - sqrt v / m) = Inr (real_of_int k / 1000)"
    by (simp only: to_decimal_def Let_def if_True)
  moreover have "max 0 (min 1 (real_of_int k / 1000)) = real_of_int k / 1000"
    using assms(5,6) by simp
  ultimately show ?thesis
    using assms(1) by (simp add: stability_calc_of_def)
qed

lemma pattern_stability_stable_series:
  "pattern_stability [85, 88, 82, 87, 90] =
     Inr \<lparr>stability_score = 0.968, pattern_variance = 7.44,
          weekly_rates = [85, 88, 82, 87, 90], is_stable = True, drift_detected = False\<rparr>"
proof -
  have m: "mean_rate_of [85, 88, 82, 87, 90] = Inr (432 / 5)"
    by (simp add: mean_rate_of_def numeric_defs)
  have v: "variance_calc_of [85, 88, 82, 87, 90] (432 / 5) = Inr (186 / 25)"
    by (simp add: variance_calc_of_def numeric_defs power2_eq_square)
  have lo: "27216 / 10000 < sqrt (186 / 25)"
    by (rule real_less_rsqrt) (simp add: power2_eq_square)
  have hi: "sqrt (186 / 25) \<le> 2808 / 1000"
    by (rule real_le_lsqrt) (simp_all add: power2_eq_square)
  have "stability_calc_of (432 / 5) (186 / 25) = Inr (real_of_int 968 / 1000)"
    using lo hi by (intro stability_calc_of_eqI) (simp_all add: field_simps)
  then have s: "stability_calc_of (432 / 5) (186 / 25) = Inr (968 / 1000)"
    by simp
  have d: "drift_detected_calc_of [85, 88, 82, 87, 90] = Inr False"
    by (simp add: drift_detected_calc_of_def numeric_defs)
  from pattern_stability_eqI [OF _ m v s d] show ?thesis
    by simp
qed

lemma pattern_stability_unstable_series:
  "pattern_stability [85, 45, 80, 30, 75] =
     Inr \<lparr>stability_score = 0.657, pattern_variance = 466,
          weekly_rates = [85, 45, 80, 30, 75], is_stable = False, drift_detected = False\<rparr>"
proof -
  have m: "mean_rate_of [85, 45, 80, 30, 75] = Inr 63"
    by (simp add: mean_rate_of_def numeric_defs)
  have v: "variance_calc_of [85, 45, 80, 30, 75] 63 = Inr 466"
    by (simp add: variance_calc_of_def numeric_defs power2_eq_square)
  have lo: "215775 / 10000 < sqrt 466"
    by (rule real_less_rsqrt) (simp add: power2_eq_square)
  have hi: "sqrt 466 \<le> 216405 / 10000"
    by (rule real_le_lsqrt) (simp_all add: power2_eq_square)
  have "stability_calc_of 63 466 = Inr (real_of_int 657 / 1000)"
    using lo hi by (intro stability_calc_of_eqI) (simp_all add: field_simps)
  then have s: "stability_calc_of 63 466 = Inr (657 / 1000)"
    by simp
  have d: "drift_detected_calc_of [85, 45, 80, 30, 75] = Inr False"
    by (simp add: drift_detected_calc_of_def numeric_defs)
  from pattern_stability_eqI [OF _ m v s d] show ?thesis
    by simp
qed

lemma pattern_stability_drifting_series:
  "pattern_stability [90, 85, 75, 60, 45, 30, 20] =
     Inr \<lparr>stability_score = 0.565, pattern_variance = 634.694,
          weekly_rates = [90, 85, 75, 60, 45, 30, 20], is_stable = False,
          drift_detected = True\<rparr>"
proof -
  have m: "mean_rate_of [90, 85, 75, 60, 45, 30, 20] = Inr (57857 / 1000)"
    by (simp add: mean_rate_of_def numeric_defs)
  have v: "variance_calc_of [90, 85, 75, 60, 45, 30, 20] (57857 / 1000) = Inr (634694 / 1000)"
    by (simp add: variance_calc_of_def numeric_defs power2_eq_square)
  have lo: "25167 / 1000 < sqrt (634694 / 1000)"
    by (rule real_less_rsqrt) (simp add: power2_eq_square)
  have hi: "sqrt (634694 / 1000) \<le> 25196 / 1000"
    by (rule real_le_lsqrt) (simp_all add: power2_eq_square)
  have "stability_calc_of (57857 / 1000) (634694 / 1000) = Inr (real_of_int 565 / 1000)"
    using lo hi by (intro stability_calc_of_eqI) (simp_all add: field_simps)
  then have s: "stability_calc_of (57857 / 1000) (634694 / 1000) = Inr (565 / 1000)"
    by simp
  have d: "drift_detected_calc_of [90, 85, 75, 60, 45, 30, 20] = Inr True"
    by (simp add: drift_detected_calc_of_def numeric_defs)
  from pattern_stability_eqI [OF _ m v s d] show ?thesis
    by simp
qed


text \<open>
  In the two earlier scripts the drift block cannot report drift: both trends are
  \<^verbatim>\<open>DECIMAL(3,2)\<close>, hence below 10 in absolute value, and on the declining series
  the assignment raises.
\<close>

lemma to_decimal_bound: "to_decimal p s x = Inr r \<Longrightarrow> \<bar>r\<bar> < 10 ^ (p - s)"
  by (simp add: to_decimal_def Let_def split: if_splits)

lemma drift_detected_calc_phase2_never:
  "drift_detected_calc_phase2 success_rates \<noteq> Inr True"
proof
  assume a: "drift_detected_calc_phase2 success_rates = Inr True"
  then obtain recent_trend historical_trend where
    r: "to_decimal 3 2 (avg (drop (length success_rates - 2) success_rates)) = Inr recent_trend"
    and h: "to_decimal 3 2 (avg (take (length success_rates - 2) success_rates))
             = Inr historical_trend"
    and d: "\<bar>recent_trend - historical_trend\<bar> > 20"
    by (auto simp: drift_detected_calc_phase2_def Let_def split: if_splits sum.splits)
  from to_decimal_bound [OF r] to_decimal_bound [OF h] d show False
    by simp
qed

lemma drift_detected_calc_phase2_raises:
  "drift_detected_calc_phase2 [90, 85, 75, 60, 45, 30, 20] = Inl NumericOverflow"
  by (simp add: drift_detected_calc_phase2_def numeric_defs)

subsection \<open>Drift detection\<close>

text \<open>
  C1, as amended. Whenever the stability analysis returns a row (no numeric overflow, as
  on every series that \<open>pattern_stability_returns\<close> covers), drift is flagged exactly
  when the series has at least 4 weeks and the mean of the last two weeks differs from the
  mean of all earlier weeks by more than 20 points, both means rounded to three decimals;
  with fewer than 4 weeks the flag is false.
\<close>

theorem drift_recent_two_weeks:
  assumes "pattern_stability rates = Inr r"
  shows "drift_detected r = (4 \<le> length rates \<and>
      20 < \<bar>round_dec 3 (avg (drop (length rates - 2) rates))
            - round_dec 3 (avg (take (length rates - 2) rates))\<bar>)"
proof (cases "3 \<le> length rates")
  case True
  from assms True obtain m v s d where
    "mean_rate_of rates = Inr m" and "variance_calc_of rates m = Inr v" and
    "stability_calc_of m v = Inr s" and
    d: "drift_detected_calc_of rates = Inr d" and
    r: "r = \<lparr>stability_score = s, pattern_variance = v, weekly_rates = rates,
          is_stable = (s \<ge> 0.7), drift_detected = d\<rparr>"
    by (rule pattern_stability_InrD)
  from drift_detected_calc_of_InrD [OF d] r show ?thesis by simp
next
  case False
  with assms show ?thesis by (auto simp: pattern_stability_def)
qed

theorem drift_recent_two_weeks_witness:
  "pattern_stability [10, 10, 90, 90] =
       Inr \<lparr>stability_score = 0.2, pattern_variance = 1600, weekly_rates = [10, 10, 90, 90],
            is_stable = False, drift_detected = True\<rparr>
   \<and> 4 \<le> length [10, 10, 90, 90 :: real]
   \<and> 20 < \<bar>round_dec 3 (avg (drop (length [10, 10, 90, 90 :: real] - 2) [10, 10, 90, 90]))
            - round_dec 3 (avg (take (length [10, 10, 90, 90 :: real] - 2) [10, 10, 90, 90]))\<bar>"
  using drift_recent_two_weeks [OF pattern_stability_step] pattern_stability_step by simp

text \<open>
  The claim as first stated fails: on the series 20, 60, 20, 60 the most recent week (60)
  differs from the mean of the three weeks before it (33.33) by more than 20, and the
  function reports no drift, since the last two weeks and the first two have the same mean.
\<close>

theorem drift_last_week_counterexample:
  "pattern_stability [20, 60, 20, 60] =
       Inr \<lparr>stability_score = 0.5, pattern_variance = 400, weekly_rates = [20, 60, 20, 60],
            is_stable = False, drift_detected = False\<rparr>
   \<and> 4 \<le> length [20, 60, 20, 60 :: real]
   \<and> spec_drift [20, 60, 20, 60]"
  by (simp add: pattern_stability_alternating spec_drift_def avg_def)

subsection \<open>The stability score\<close>

text \<open>
  C2, as amended. For every series with at least 3 weeks on which the analysis returns a
  row, let \<open>m\<close> be the mean rounded to three decimals and \<open>v\<close> the mean squared
  deviation from \<open>m\<close>, rounded to three decimals. The variance returned is \<open>v\<close>; the
  stability score is \<open>1 - sqrt v / m\<close> rounded to three decimals and clamped to
  \<open>[0, 1]\<close> when \<open>m > 0\<close>, and 0 otherwise; it is within 0.0005 of the unrounded
  clamped value; and the series is stable exactly when the score is at least 0.7.
\<close>

theorem stability_score_rounded:
  assumes "3 \<le> length rates" and "pattern_stability rates = Inr r"
  shows "(let m = round_dec 3 (avg rates);
              v = round_dec 3 (avg (map (\<lambda>rate. (rate - m) ^ 2) rates))
          in pattern_variance r = v
             \<and> stability_score r =
                 (if m > 0 then max 0 (min 1 (round_dec 3 (1 - sqrt v / m))) else 0)
             \<and> \<bar>stability_score r - (if m > 0 then max 0 (min 1 (1 - sqrt v / m)) else 0)\<bar>
                 \<le> 1 / 2000
             \<and> is_stable r = (stability_score r \<ge> 0.7))"
proof -
  from assms(2,1) obtain m v s d where
    m: "mean_rate_of rates = Inr m" and v: "variance_calc_of rates m = Inr v" and
    s: "stability_calc_of m v = Inr s" and
    "drift_detected_calc_of rates = Inr d" and
    r: "r = \<lparr>stability_score = s, pattern_variance = v, weekly_rates = rates,
          is_stable = (s \<ge> 0.7), drift_detected = d\<rparr>"
    by (rule pattern_stability_InrD)
  have m': "m = round_dec 3 (avg rates)"
    using m by (auto simp: mean_rate_of_def dest: to_decimal_Inr)
  have v': "v = round_dec 3 (avg (map (\<lambda>rate. (rate - m) ^ 2) rates))"
    using v by (auto simp: variance_calc_of_def dest: to_decimal_Inr)
  have s': "s = (if m > 0 then max 0 (min 1 (round_dec 3 (1 - sqrt v / m))) else 0)"
    using s by (rule stability_calc_of_InrD)
  have "\<bar>max 0 (min 1 (round_dec 3 (1 - sqrt v / m))) - max 0 (min 1 (1 - sqrt v / m))\<bar>
          \<le> \<bar>round_dec 3 (1 - sqrt v / m) - (1 - sqrt v / m)\<bar>"
    by (rule clamp_lipschitz)
  also have "\<dots> \<le> 1 / (2 * 10 ^ 3)"
    by (rule round_dec_error)
  finally have e: "\<bar>s - (if m > 0 then max 0 (min 1 (1 - sqrt v / m)) else 0)\<bar> \<le> 1 / 2000"
    using s' by simp
  show ?thesis
    unfolding Let_def m'[symmetric] v'[symmetric]
    using r s' e by simp
qed

theorem stability_score_rounded_witness:
  "3 \<le> length [2, 4, 2, 4 :: real]
   \<and> pattern_stability [2, 4, 2, 4] =
       Inr \<lparr>stability_score = 0.667, pattern_variance = 1, weekly_rates = [2, 4, 2, 4],
            is_stable = False, drift_detected = False\<rparr>
   \<and> round_dec 3 (avg [2, 4, 2, 4]) = 3
   \<and> round_dec 3 (1 - sqrt 1 / 3) = 0.667"
  using stability_score_rounded [OF _ pattern_stability_thirds] pattern_stability_thirds by (simp add: numeric_defs)

text \<open>
  The claim as first stated fails: on the series 6.99, 12.99, 6.99, 12.99 the mean is 9.99
  and the population variance 9, so the exact formula gives 233/333, below 0.7; the
  function returns the score 0.700 and reports the series as stable.
\<close>

theorem stability_score_rounded_counterexample:
  "3 \<le> length [699 / 100, 1299 / 100, 699 / 100, 1299 / 100 :: real]
   \<and> avg [699 / 100, 1299 / 100, 699 / 100, 1299 / 100] > 0
   \<and> pattern_stability [699 / 100, 1299 / 100, 699 / 100, 1299 / 100] =
       Inr \<lparr>stability_score = 0.7, pattern_variance = 9,
            weekly_rates = [699 / 100, 1299 / 100, 699 / 100, 1299 / 100],
            is_stable = True, drift_detected = False\<rparr>
   \<and> spec_stabilityScore [699 / 100, 1299 / 100, 699 / 100, 1299 / 100] = 233 / 333
   \<and> (233 / 333 :: real) < 0.7"
  by (simp add: pattern_stability_borderline spec_stabilityScore_def population_variance_def
        avg_def sqrt_9)

subsection \<open>The weekly query\<close>

lemma date_trunc_week_bounds:
  "date_trunc_week t \<le> t \<and> t < date_trunc_week t + 7 * seconds_per_day"
proof -
  define d where "d = t div 86400"
  define k where "k = (d + 3) mod 7"
  have k: "0 \<le> k" "k < 7"
    by (simp_all add: k_def)
  have "t = d * 86400 + t mod 86400"
    by (simp add: d_def)
  moreover have "0 \<le> t mod 86400" "t mod 86400 < 86400"
    by simp_all
  ultimately have t: "d * 86400 \<le> t" "t < d * 86400 + 86400"
    by linarith+
  have "date_trunc_week t = d * 86400 - k * 86400"
    by (simp add: date_trunc_week_def seconds_per_day_def Let_def d_def k_def algebra_simps)
  with k t show ?thesis
    by (simp add: seconds_per_day_def)
qed

lemma current_date_bounds: "current_date now \<le> now \<and> now < current_date now + 86400"
proof -
  have "now = (now div 86400) * 86400 + now mod 86400"
    by simp
  moreover have "0 \<le> now mod 86400" "now mod 86400 < 86400"
    by simp_all
  ultimately show ?thesis
    unfolding current_date_def seconds_per_day_def by linarith
qed

lemma weekly_data_weeks:
  "map fst (weekly_data now p u tbl) =
     filter (\<lambda>w. length (week_group now p u tbl w) \<ge> 2)
       (sort (remdups (map (\<lambda>ea. date_trunc_week (created_at ea))
                        (filter (selected_by now p u) tbl))))"
  by (simp add: weekly_data_def Let_def o_def)

lemma weekly_data_mem:
  "(w, a) \<in> set (weekly_data now p u tbl) \<Longrightarrow>
     length (week_group now p u tbl w) \<ge> 2
     \<and> a = avg (map (\<lambda>ea. real_of_int (success_score ea)) (week_group now p u tbl w))"
  by (auto simp: weekly_data_def Let_def)

lemma week_group_mem:
  "ea \<in> set (week_group now p u tbl w) \<Longrightarrow>
     ea \<in> set tbl \<and> selected_by now p u ea \<and> date_trunc_week (created_at ea) = w"
  by (auto simp: week_group_def)

lemma weekly_data_example:
  "weekly_data 10000000 ''tone'' None
     [test_row ''tone'' 75 10000000, test_row ''tone'' 100 9990000,
      test_row ''length'' 25 9990000, test_row ''tone'' 0 0]
   = [(9417600, 175 / 2)]"
  by (simp add: weekly_data_def week_group_def selected_by_def test_row_def date_trunc_week_def
        seconds_per_day_def current_date_def eight_weeks_def avg_def)

lemma selected_by_example:
  "filter (selected_by 10000000 ''tone'' None)
        [test_row ''length'' 25 9990000, test_row ''tone'' 0 0] = []"
  by (simp add: selected_by_def test_row_def current_date_def eight_weeks_def
        seconds_per_day_def)

text \<open>
  C8, as amended. For every pattern, user filter and ledger, the weekly query returns its
  rows in strictly ascending order of week start. Each row stands for a week that holds at
  least 2 selected ledger rows and carries their average score; every one of these ledger
  rows is of the pattern (and of the user, when one is given), is stamped no earlier than
  the start of the current date minus 8 weeks, and lies in the week that starts at the
  row's week start. The start of the current date is at most the current time and less
  than a day before it; no upper bound is put on the stamps. When no ledger row is
  selected the result is the empty sequence and the stability function returns its default
  row. The query is a function of the time and the ledger, returns no error and leaves the
  ledger as it is.
\<close>

theorem weekly_data_buckets:
  "sorted (map fst (weekly_data now p u tbl))
   \<and> distinct (map fst (weekly_data now p u tbl))
   \<and> (\<forall>(w, a) \<in> set (weekly_data now p u tbl).
        length (week_group now p u tbl w) \<ge> 2
        \<and> a = avg (map (\<lambda>ea. real_of_int (success_score ea)) (week_group now p u tbl w))
        \<and> (\<forall>ea \<in> set (week_group now p u tbl w).
              ea \<in> set tbl \<and> edit_type ea = p
              \<and> (u = None \<or> user_id ea = u)
              \<and> created_at ea \<ge> current_date now - 8 * 7 * 86400
              \<and> w \<le> created_at ea \<and> created_at ea < w + 7 * 86400))
   \<and> current_date now \<le> now \<and> now < current_date now + 86400
   \<and> (filter (selected_by now p u) tbl = []
        \<longrightarrow> weekly_data now p u tbl = []
            \<and> calculate_pattern_stability now pt p u tbl =
                Inr \<lparr>stability_score = 0.5, pattern_variance = 0, weekly_rates = [],
                     is_stable = False, drift_detected = False\<rparr>)"
proof -
  have s: "sorted (map fst (weekly_data now p u tbl))"
    unfolding weekly_data_weeks by (simp add: sorted_wrt_filter)
  have d: "distinct (map fst (weekly_data now p u tbl))"
    unfolding weekly_data_weeks by simp
  have m: "\<forall>(w, a) \<in> set (weekly_data now p u tbl).
        length (week_group now p u tbl w) \<ge> 2
        \<and> a = avg (map (\<lambda>ea. real_of_int (success_score ea)) (week_group now p u tbl w))
        \<and> (\<forall>ea \<in> set (week_group now p u tbl w).
              ea \<in> set tbl \<and> edit_type ea = p
              \<and> (u = None \<or> user_id ea = u)
              \<and> created_at ea \<ge> current_date now - 8 * 7 * 86400
              \<and> w \<le> created_at ea \<and> created_at ea < w + 7 * 86400)"
  proof (clarify, intro conjI ballI)
    fix w a assume wa: "(w, a) \<in> set (weekly_data now p u tbl)"
    from weekly_data_mem [OF wa]
    show "2 \<le> length (week_group now p u tbl w)"
      and "a = avg (map (\<lambda>ea. real_of_int (success_score ea)) (week_group now p u tbl w))"
      by simp_all
    fix ea assume "ea \<in> set (week_group now p u tbl w)"
    from week_group_mem [OF this]
    have e: "ea \<in> set tbl" "selected_by now p u ea" "date_trunc_week (created_at ea) = w"
      by simp_all
    from e(1) show "ea \<in> set tbl" .
    from e(2) show "edit_type ea = p" "u = None \<or> user_id ea = u"
      "current_date now - 8 * 7 * 86400 \<le> created_at ea"
      by (simp_all add: selected_by_def eight_weeks_def seconds_per_day_def)
    from date_trunc_week_bounds [of "created_at ea"] e(3)
    show "w \<le> created_at ea" "created_at ea < w + 7 * 86400"
      by (simp_all add: seconds_per_day_def)
  qed
  have e: "filter (selected_by now p u) tbl = []
        \<longrightarrow> weekly_data now p u tbl = []
            \<and> calculate_pattern_stability now pt p u tbl =
                Inr \<lparr>stability_score = 0.5, pattern_variance = 0, weekly_rates = [],
                     is_stable = False, drift_detected = False\<rparr>"
    by (simp add: weekly_data_def calculate_pattern_stability_def pattern_stability_def)
  from s d m e current_date_bounds [of now] show ?thesis by blast
qed

theorem weekly_data_buckets_witness:
  "weekly_data 10000000 ''tone'' None
     [test_row ''tone'' 75 10000000, test_row ''tone'' 100 9990000,
      test_row ''length'' 25 9990000, test_row ''tone'' 0 0]
     = [(9417600, 175 / 2)]
   \<and> 2 \<le> length (week_group 10000000 ''tone'' None
     [test_row ''tone'' 75 10000000, test_row ''tone'' 100 9990000,
      test_row ''length'' 25 9990000, test_row ''tone'' 0 0] 9417600)
   \<and> filter (selected_by 10000000 ''tone'' None)
        [test_row ''length'' 25 9990000, test_row ''tone'' 0 0] = []
   \<and> weekly_data 10000000 ''tone'' None
        [test_row ''length'' 25 9990000, test_row ''tone'' 0 0] = []"
proof -
  let ?tbl = "[test_row ''tone'' 75 10000000, test_row ''tone'' 100 9990000,
      test_row ''length'' 25 9990000, test_row ''tone'' 0 0]"
  let ?none = "[test_row ''length'' 25 9990000, test_row ''tone'' 0 0]"
  note t = weekly_data_buckets [of 10000000 "''tone''" None ?tbl "''edit_type''"]
  note n = weekly_data_buckets [of 10000000 "''tone''" None ?none "''edit_type''"]
  from t have "\<forall>(w, a) \<in> set (weekly_data 10000000 ''tone'' None ?tbl).
        2 \<le> length (week_group 10000000 ''tone'' None ?tbl w)"
    by (elim conjE) (rule ballI, drule (1) bspec, clarsimp)
  then have two: "2 \<le> length (week_group 10000000 ''tone'' None ?tbl 9417600)"
    unfolding weekly_data_example by simp
  from n have "filter (selected_by 10000000 ''tone'' None) ?none = [] \<longrightarrow>
      weekly_data 10000000 ''tone'' None ?none = []
      \<and> calculate_pattern_stability 10000000 ''edit_type'' ''tone'' None ?none =
                Inr \<lparr>stability_score = 0.5, pattern_variance = 0, weekly_rates = [],
                     is_stable = False, drift_detected = False\<rparr>"
    by (elim conjE)
  with selected_by_example have "weekly_data 10000000 ''tone'' None ?none = []"
    by simp
  with selected_by_example two weekly_data_example show ?thesis
    by (intro conjI)
qed

text \<open>
  The claim as first stated fails: at a time of day of 17:46, two rows stamped 8 weeks and
  17 hours earlier are selected and make a bucket, although they are older than 8 weeks,
  since the window starts at the midnight of the current date minus 8 weeks.
\<close>

theorem window_starts_at_midnight_counterexample:
  "weekly_data 10000000 ''tone'' None
     [test_row ''tone'' 75 5100000, test_row ''tone'' 100 5100000]
     = [(4579200, 175 / 2)]
   \<and> week_group 10000000 ''tone'' None
       [test_row ''tone'' 75 5100000, test_row ''tone'' 100 5100000] 4579200
     = [test_row ''tone'' 75 5100000, test_row ''tone'' 100 5100000]
   \<and> created_at (test_row ''tone'' 75 5100000) < 10000000 - 8 * 7 * 86400
   \<and> created_at (test_row ''tone'' 100 5100000) < 10000000 - 8 * 7 * 86400"
  by (simp add: weekly_data_def week_group_def selected_by_def test_row_def date_trunc_week_def
        seconds_per_day_def current_date_def eight_weeks_def avg_def)


subsection \<open>The outcome score\<close>

lemma nat_min_100: "nat (min z 100) \<le> 100"
  by arith

lemma calculateEditPercentage_le: "calculateEditPercentage original edited \<le> 100"
  by (simp add: calculateEditPercentage_def Let_def nat_min_100)

lemma pct_examples:
  "calculateEditPercentage ''Hello there'' '' '' = 100"
  "calculateEditPercentage ''a b c d e'' ''a b c d x'' = 20"
  "calculateEditPercentage ''Hello there'' ''Hi there'' = 50"
  "calculateEditPercentage ''Hello'' ''Goodbye'' = 100"
  "calculateEditPercentage ''a b'' ''a  b'' = 0"
  by (simp_all add: calculateEditPercentage_def trim_def is_ws_def math_round_def Let_def)

text \<open>
  C9, as amended. The score is a function of the two texts. Identical texts score 100. An
  empty or blank edited text that differs from the original scores 0. In every case the
  edit percentage is at most 100 and the score follows the bands: percentage 0 gives 100,
  at most 20 gives 75, at most 70 gives 25, above 70 gives 0; \<^verbatim>\<open>analyzeEdit\<close>
  returns an analysis that carries this percentage and this score.
\<close>

theorem outcome_score_bands:
  "calculateSuccessScore (calculateEditPercentage original original) = 100
   \<and> (original \<noteq> edited \<and> (edited = [] \<or> trim edited = [])
        \<longrightarrow> calculateSuccessScore (calculateEditPercentage original edited) = 0)
   \<and> calculateEditPercentage original edited \<le> 100
   \<and> (calculateEditPercentage original edited = 0
        \<longrightarrow> calculateSuccessScore (calculateEditPercentage original edited) = 100)
   \<and> (0 < calculateEditPercentage original edited \<and> calculateEditPercentage original edited \<le> 20
        \<longrightarrow> calculateSuccessScore (calculateEditPercentage original edited) = 75)
   \<and> (20 < calculateEditPercentage original edited \<and> calculateEditPercentage original edited \<le> 70
        \<longrightarrow> calculateSuccessScore (calculateEditPercentage original edited) = 25)
   \<and> (70 < calculateEditPercentage original edited
        \<longrightarrow> calculateSuccessScore (calculateEditPercentage original edited) = 0)
   \<and> (\<exists>analysis. fst (analyzeEdit ai pool_query rid original edited userId w) = Inr analysis
        \<and> editPercentage analysis = calculateEditPercentage original edited
        \<and> successScore analysis = calculateSuccessScore (calculateEditPercentage original edited))"
proof -
  have "calculateEditPercentage original original = 0"
    by (simp add: calculateEditPercentage_def)
  moreover have "original \<noteq> edited \<and> (edited = [] \<or> trim edited = [])
        \<longrightarrow> calculateEditPercentage original edited = 100"
    by (simp add: calculateEditPercentage_def)
  moreover have "\<exists>analysis. fst (analyzeEdit ai pool_query rid original edited userId w) = Inr analysis
        \<and> editPercentage analysis = calculateEditPercentage original edited
        \<and> successScore analysis = calculateSuccessScore (calculateEditPercentage original edited)"
    by (auto simp: analyzeEdit_def storeEditAnalysis_def Let_def split: prod.splits sum.splits)
  ultimately show ?thesis
    using calculateEditPercentage_le [of original edited]
    by (simp add: calculateSuccessScore_def)
qed

theorem outcome_score_bands_witness:
  "''Hello there'' \<noteq> '' '' \<and> trim '' '' = []
   \<and> calculateSuccessScore (calculateEditPercentage ''Hello there'' '' '') = 0
   \<and> calculateEditPercentage ''a b'' ''a  b'' = 0
   \<and> calculateSuccessScore (calculateEditPercentage ''a b'' ''a  b'') = 100
   \<and> calculateEditPercentage ''a b c d e'' ''a b c d x'' = 20
   \<and> calculateSuccessScore (calculateEditPercentage ''a b c d e'' ''a b c d x'') = 75
   \<and> calculateEditPercentage ''Hello there'' ''Hi there'' = 50
   \<and> calculateSuccessScore (calculateEditPercentage ''Hello there'' ''Hi there'') = 25
   \<and> calculateEditPercentage ''Hello'' ''Goodbye'' = 100
   \<and> calculateSuccessScore (calculateEditPercentage ''Hello'' ''Goodbye'') = 0"
  using outcome_score_bands [of "''Hello there''" "'' ''" no_ai unreachable_pool_query "''r1''"
          None empty_database]
        outcome_score_bands [of "''a b''" "''a  b''" no_ai unreachable_pool_query "''r1''"
          None empty_database]
        outcome_score_bands [of "''a b c d e''" "''a b c d x''" no_ai unreachable_pool_query
          "''r1''" None empty_database]
        outcome_score_bands [of "''Hello there''" "''Hi there''" no_ai unreachable_pool_query
          "''r1''" None empty_database]
        outcome_score_bands [of "''Hello''" "''Goodbye''" no_ai unreachable_pool_query "''r1''"
          None empty_database]
  by (simp add: pct_examples trim_def is_ws_def)

text \<open>
  The claim as first stated fails when the edited text is blank and identical to the
  original: the identity test comes first and the score is 100.
\<close>

theorem blank_identical_counterexample:
  "trim '' '' = [] \<and> calculateSuccessScore (calculateEditPercentage '' '' '' '') = 100"
  by (simp add: calculateEditPercentage_def calculateSuccessScore_def trim_def is_ws_def)

subsection \<open>Storage failures\<close>

text \<open>
  With the database as the storage layer and no completion service, one call records the
  event and creates the pattern row.
\<close>

lemma analyzeEdit_records_example:
  "analyzeEdit no_ai (pg_pool_query (round_dec 2) 10000000) ''r1'' ''Hello there''
     ''Hi there'' None
     empty_database
   = (Inr \<lparr>responseId = ''r1'', originalText = ''Hello there'', editedText = ''Hi there'',
            editType = ''mixed'', editPercentage = 50,
            editDescription = ''Unable to analyze edit'', successScore = 25,
            learningInsight = ''Analysis failed''\<rparr>,
      \<lparr>edit_analyses =
         [\<lparr>response_id = ''r1'', original_text = ''Hello there'', edited_text = ''Hi there'',
           edit_type = ''mixed'', edit_percentage = 50,
           edit_description = ''Unable to analyze edit'', success_score = 25,
           learning_insight = ''Analysis failed'', user_id = None, created_at = 10000000\<rparr>],
       learning_insights = [(''edit_type'', ''mixed'') \<mapsto>
         \<lparr>frequency = 1, success_rate = 25,
          recommendation = ''Significant improvements required'', confidence = 50,
          sample_size = 1, time_span_days = 1, first_occurrence = 10000000,
          threshold_met = False, stability_score_col = 0.5, pattern_variance_col = 0,
          weekly_success_rates = [], stability_validated = False,
          pattern_drift_detected = False, last_updated = 10000000\<rparr>]\<rparr>)"
  by (simp add: analyzeEdit_def storeEditAnalysis_def pg_pool_query_def no_ai_def
        getAIEditAnalysis_def calculateEditPercentage_def calculateSuccessScore_def trim_def
        is_ws_def math_round_def Let_def empty_database_def
        insert_edit_analysis_def update_learning_insights_with_stability_def
        calculate_pattern_stability_def weekly_data_def week_group_def selected_by_def
        date_trunc_week_def seconds_per_day_def current_date_def eight_weeks_def
        avg_def pattern_stability_def insert_values_def stability_column_defaults_def)


text \<open>
  C7, as amended. For every storage layer, \<^verbatim>\<open>analyzeEdit\<close> sends the insert
  statement exactly once (no retry) and returns the analysis to its caller whatever the
  outcome of the statement: a failed write is logged by \<^verbatim>\<open>storeEditAnalysis\<close> and is
  not surfaced, so \<^verbatim>\<open>analyzeEdit\<close> never fails on a storage error.
\<close>

theorem analyzeEdit_swallows_storage_failure:
  "\<exists>analysis.
     analyzeEdit ai pool_query rid original edited userId w
       = (Inr analysis, snd (pool_query w (analysis, userId)))
     \<and> responseId analysis = rid \<and> originalText analysis = original
     \<and> editedText analysis = edited"
  by (auto simp: analyzeEdit_def storeEditAnalysis_def Let_def split: prod.splits sum.splits)


text \<open>
  The claim as first stated fails: with a storage layer that rejects the statement, the
  call returns the analysis as on success and the ledger holds no row.
\<close>

theorem storage_failure_reported_as_success_counterexample:
  "unreachable_pool_query empty_database
      (\<lparr>responseId = ''r1'', originalText = ''Hello there'', editedText = ''Hi there'',
         editType = ''mixed'', editPercentage = 50,
         editDescription = ''Unable to analyze edit'', successScore = 25,
         learningInsight = ''Analysis failed''\<rparr>, None)
     = (Inl ConnectionFailed, empty_database)
   \<and> analyzeEdit no_ai unreachable_pool_query ''r1'' ''Hello there'' ''Hi there'' None
        empty_database
     = (Inr \<lparr>responseId = ''r1'', originalText = ''Hello there'', editedText = ''Hi there'',
              editType = ''mixed'', editPercentage = 50,
              editDescription = ''Unable to analyze edit'', successScore = 25,
              learningInsight = ''Analysis failed''\<rparr>, empty_database)
   \<and> edit_analyses empty_database = []"
  by (simp add: analyzeEdit_def storeEditAnalysis_def unreachable_pool_query_def no_ai_def
        getAIEditAnalysis_def calculateEditPercentage_def calculateSuccessScore_def trim_def
        is_ws_def math_round_def Let_def empty_database_def)


subsection \<open>Sample size and frequency\<close>

lemma insert_edit_analysis_InrD:
  assumes "insert_edit_analysis store_rate now NEW db = Inr db'"
  shows "edit_analyses db' = edit_analyses db @ [NEW]"
    and "\<exists>row. learning_insights db' =
            (learning_insights db)((''edit_type'', edit_type NEW) \<mapsto> row)
          \<and> frequency row =
              (case learning_insights db (''edit_type'', edit_type NEW) of
                 None \<Rightarrow> 1 | Some li \<Rightarrow> max (frequency li + 1) 1)
          \<and> sample_size row =
              (case learning_insights db (''edit_type'', edit_type NEW) of
                 None \<Rightarrow> 1 | Some li \<Rightarrow> frequency li + 1)"
  using assms
  by (auto simp: insert_edit_analysis_def update_learning_insights_with_stability_def Let_def
        insert_values_def on_conflict_update_def split: sum.splits option.splits)

lemma counts_consistent_empty: "counts_consistent empty_database"
  by (simp add: counts_consistent_def empty_database_def events_recorded_def)

lemma counts_consistent_step:
  assumes inv: "counts_consistent db" and ins: "insert_edit_analysis store_rate now NEW db = Inr db'"
  shows "counts_consistent db'"
proof -
  from insert_edit_analysis_InrD [OF ins] obtain row where
    ea: "edit_analyses db' = edit_analyses db @ [NEW]" and
    li: "learning_insights db' = (learning_insights db)((''edit_type'', edit_type NEW) \<mapsto> row)" and
    fr: "frequency row = (case learning_insights db (''edit_type'', edit_type NEW) of
                 None \<Rightarrow> 1 | Some li \<Rightarrow> max (frequency li + 1) 1)" and
    sz: "sample_size row = (case learning_insights db (''edit_type'', edit_type NEW) of
                 None \<Rightarrow> 1 | Some li \<Rightarrow> frequency li + 1)"
    by blast
  have ev: "events_recorded pv db' =
      (if pv = edit_type NEW then events_recorded pv db + 1 else events_recorded pv db)" for pv
    by (auto simp: events_recorded_def ea)
  have nonneg: "0 \<le> events_recorded pv db" for pv
    by (simp add: events_recorded_def)
  show ?thesis
    unfolding counts_consistent_def
  proof (intro allI)
    fix pt pv
    from inv have old: "case learning_insights db (pt, pv) of
        None \<Rightarrow> pt = ''edit_type'' \<longrightarrow> events_recorded pv db = 0
      | Some li \<Rightarrow> pt = ''edit_type'' \<and> frequency li = events_recorded pv db
                   \<and> sample_size li = frequency li"
      by (simp add: counts_consistent_def)
    show "case learning_insights db' (pt, pv) of
        None \<Rightarrow> pt = ''edit_type'' \<longrightarrow> events_recorded pv db' = 0
      | Some li \<Rightarrow> pt = ''edit_type'' \<and> frequency li = events_recorded pv db'
                   \<and> sample_size li = frequency li"
    proof (cases "(pt, pv) = (''edit_type'', edit_type NEW)")
      case True
      with old fr sz nonneg [of "edit_type NEW"] show ?thesis
        by (auto simp: li ev split: option.splits)
    next
      case False
      with old show ?thesis
        by (auto simp: li ev split: option.splits)
    qed
  qed
qed

lemma counts_consistent_record_events:
  "counts_consistent db \<Longrightarrow> counts_consistent (record_events store_rate evs db)"
proof (induction evs arbitrary: db)
  case Nil
  then show ?case by simp
next
  case (Cons e evs)
  obtain now NEW where e: "e = (now, NEW)" by (cases e)
  show ?case
  proof (cases "insert_edit_analysis store_rate now NEW db")
    case (Inl err)
    with Cons e show ?thesis by simp
  next
    case (Inr db')
    with Cons.prems have "counts_consistent db'" by (auto intro: counts_consistent_step)
    with Cons.IH Inr e show ?thesis by simp
  qed
qed

lemma insert_edit_analysis_confidence:
  assumes "insert_edit_analysis store_rate now NEW db = Inr db'"
  shows "\<exists>row. learning_insights db' =
            (learning_insights db)((''edit_type'', edit_type NEW) \<mapsto> row)
          \<and> confidence row =
              (case learning_insights db (''edit_type'', edit_type NEW) of
                 None \<Rightarrow> 50 | Some li \<Rightarrow> min 90 (confidence li + 2))"
  using assms
  by (auto simp: insert_edit_analysis_def update_learning_insights_with_stability_def Let_def
        insert_values_def on_conflict_update_def split: sum.splits option.splits)

lemma confidence_capped_empty: "confidence_capped empty_database"
  by (simp add: confidence_capped_def empty_database_def)

lemma confidence_capped_step:
  assumes inv: "confidence_capped db" and ins: "insert_edit_analysis store_rate now NEW db = Inr db'"
  shows "confidence_capped db'"
proof -
  from insert_edit_analysis_confidence [OF ins] obtain row where
    li: "learning_insights db' = (learning_insights db)((''edit_type'', edit_type NEW) \<mapsto> row)"
    and c: "confidence row =
              (case learning_insights db (''edit_type'', edit_type NEW) of
                 None \<Rightarrow> 50 | Some li \<Rightarrow> min 90 (confidence li + 2))"
    by blast
  have "50 \<le> confidence row \<and> confidence row \<le> 90"
  proof (cases "learning_insights db (''edit_type'', edit_type NEW)")
    case None
    with c show ?thesis by simp
  next
    case (Some li)
    with inv have "50 \<le> confidence li \<and> confidence li \<le> 90"
      unfolding confidence_capped_def by blast
    with c Some show ?thesis by simp
  qed
  with inv show ?thesis
    by (auto simp: confidence_capped_def li)
qed

lemma confidence_capped_record_events:
  "confidence_capped db \<Longrightarrow> confidence_capped (record_events store_rate evs db)"
proof (induction evs arbitrary: db)
  case Nil
  then show ?case by simp
next
  case (Cons e evs)
  obtain now NEW where e: "e = (now, NEW)" by (cases e)
  show ?case
  proof (cases "insert_edit_analysis store_rate now NEW db")
    case (Inl err)
    with Cons e show ?thesis by simp
  next
    case (Inr db')
    with Cons.prems have "confidence_capped db'" by (auto intro: confidence_capped_step)
    with Cons.IH Inr e show ?thesis by simp
  qed
qed

lemma frequency_positive_empty: "frequency_positive empty_database"
  by (simp add: frequency_positive_def empty_database_def)

lemma frequency_positive_step:
  assumes inv: "frequency_positive db"
    and ins: "insert_edit_analysis store_rate now NEW db = Inr db'"
  shows "frequency_positive db'"
proof -
  from insert_edit_analysis_InrD(2) [OF ins] obtain row where
    li: "learning_insights db' = (learning_insights db)((''edit_type'', edit_type NEW) \<mapsto> row)"
    and fr: "frequency row =
              (case learning_insights db (''edit_type'', edit_type NEW) of
                 None \<Rightarrow> 1 | Some li \<Rightarrow> max (frequency li + 1) 1)"
    by blast
  from fr have "0 < frequency row"
    by (cases "learning_insights db (''edit_type'', edit_type NEW)") simp_all
  with inv show ?thesis
    by (auto simp: frequency_positive_def li)
qed

lemma frequency_positive_record_events:
  "frequency_positive db \<Longrightarrow> frequency_positive (record_events store_rate evs db)"
proof (induction evs arbitrary: db)
  case Nil
  then show ?case by simp
next
  case (Cons e evs)
  obtain now NEW where e: "e = (now, NEW)" by (cases e)
  show ?case
  proof (cases "insert_edit_analysis store_rate now NEW db")
    case (Inl err)
    with Cons e show ?thesis by simp
  next
    case (Inr db')
    with Cons.prems have "frequency_positive db'" by (auto intro: frequency_positive_step)
    with Cons.IH Inr e show ?thesis by simp
  qed
qed

text \<open>
  Two events of the pattern \<open>tone\<close>, with scores 75 and 100, recorded in a database whose
  \<^verbatim>\<open>success_rate\<close> column has two decimals.
\<close>

lemma record_events_example:
  "record_events (round_dec 2) [(10000000, test_row ''tone'' 75 10000000),
                  (10000100, test_row ''tone'' 100 10000100)] empty_database
   = \<lparr>edit_analyses = [test_row ''tone'' 75 10000000, test_row ''tone'' 100 10000100],
      learning_insights = [(''edit_type'', ''tone'') \<mapsto>
        \<lparr>frequency = 2, success_rate = 175 / 2,
         recommendation = ''Current approach working well'', confidence = 52,
         sample_size = 2, time_span_days = 1, first_occurrence = 10000000,
         threshold_met = False, stability_score_col = 0.5, pattern_variance_col = 0,
         weekly_success_rates = [175 / 2], stability_validated = False,
         pattern_drift_detected = False, last_updated = 10000100\<rparr>]\<rparr>"
  by (simp add: insert_edit_analysis_def update_learning_insights_with_stability_def
        calculate_pattern_stability_def weekly_data_def week_group_def selected_by_def
        test_row_def date_trunc_week_def seconds_per_day_def current_date_def eight_weeks_def
        avg_def empty_database_def pattern_stability_def to_decimal_def round_dec_def
        round_half_away_def insert_values_def on_conflict_update_def extract_day_def
        stability_column_defaults_def)

text \<open>
  C10. After any run of insert statements on an empty database, every pattern row has a
  sample size equal to its frequency, and both equal the number of ledger rows recorded for
  the pattern; all rows are of pattern type \<open>edit_type\<close>. Each successful insert
  preserves this (\<open>counts_consistent_step\<close>), a failed one changes nothing.
\<close>

theorem sample_size_equals_frequency:
  "learning_insights (record_events store_rate evs empty_database) (pt, pv) = Some li \<Longrightarrow>
     sample_size li = frequency li
     \<and> frequency li = events_recorded pv (record_events store_rate evs empty_database)
     \<and> pt = ''edit_type''"
  using counts_consistent_record_events [OF counts_consistent_empty, of store_rate evs]
  by (auto simp: counts_consistent_def split: option.splits dest!: spec [of _ pt] spec [of _ pv])

theorem sample_size_equals_frequency_witness:
  "learning_insights
     (record_events (round_dec 2) [(10000000, test_row ''tone'' 75 10000000),
                     (10000100, test_row ''tone'' 100 10000100)] empty_database)
     (''edit_type'', ''tone'')
   = Some \<lparr>frequency = 2, success_rate = 175 / 2,
         recommendation = ''Current approach working well'', confidence = 52,
         sample_size = 2, time_span_days = 1, first_occurrence = 10000000,
         threshold_met = False, stability_score_col = 0.5, pattern_variance_col = 0,
         weekly_success_rates = [175 / 2], stability_validated = False,
         pattern_drift_detected = False, last_updated = 10000100\<rparr>
   \<and> events_recorded ''tone''
       (record_events (round_dec 2) [(10000000, test_row ''tone'' 75 10000000),
                       (10000100, test_row ''tone'' 100 10000100)] empty_database) = 2"
proof -
  let ?evs = "[(10000000, test_row ''tone'' 75 10000000),
               (10000100, test_row ''tone'' 100 10000100)]"
  let ?li = "\<lparr>frequency = 2, success_rate = 175 / 2,
         recommendation = ''Current approach working well'', confidence = 52,
         sample_size = 2, time_span_days = 1, first_occurrence = 10000000,
         threshold_met = False, stability_score_col = 0.5, pattern_variance_col = 0,
         weekly_success_rates = [175 / 2], stability_validated = False,
         pattern_drift_detected = False, last_updated = 10000100\<rparr>"
  have row: "learning_insights (record_events (round_dec 2) ?evs empty_database)
               (''edit_type'', ''tone'')
      = Some ?li"
    unfolding record_events_example by simp
  from sample_size_equals_frequency [OF row]
  have "events_recorded ''tone'' (record_events (round_dec 2) ?evs empty_database) = 2"
    by simp
  with row show ?thesis by (intro conjI)
qed

subsection \<open>The incremental update of success rate and confidence\<close>

text \<open>
  C5. For every existing row with frequency \<open>n > 0\<close> and every new score \<open>s\<close>, the
  update stores the success rate \<open>(old rate * n + s) / (n + 1)\<close>, as the column holds it:
  the rounding \<open>store_rate\<close> of the quotient, which is within half a unit of the last
  decimal of the quotient when the column has \<open>d\<close> decimals. For every existing row it
  stores the confidence \<open>min 90 (old confidence + 2)\<close>, which never exceeds 90. Every row
  that the upsert has created and maintained, starting from an empty database, has a
  positive frequency, and its stored confidence never decreases on this path.
\<close>

theorem apply_event_rate_and_confidence:
  "(frequency li > 0 \<longrightarrow>
      success_rate (on_conflict_update store_rate now NEW li) =
        store_rate
          ((success_rate li * real_of_int (frequency li) + real_of_int (success_score NEW))
             / real_of_int (frequency li + 1))
      \<and> \<bar>success_rate (on_conflict_update (round_dec d) now NEW li)
           - (success_rate li * real_of_int (frequency li) + real_of_int (success_score NEW))
               / real_of_int (frequency li + 1)\<bar> \<le> 1 / (2 * 10 ^ d))
   \<and> confidence (on_conflict_update store_rate now NEW li) = min 90 (confidence li + 2)
   \<and> confidence (on_conflict_update store_rate now NEW li) \<le> 90
   \<and> (learning_insights (record_events store_rate evs empty_database) key = Some li
        \<longrightarrow> frequency li > 0
            \<and> confidence li \<le> confidence (on_conflict_update store_rate now NEW li))"
proof -
  have reached: "frequency li > 0 \<and> confidence li \<le> 90"
    if "learning_insights (record_events store_rate evs empty_database) key = Some li"
  proof -
    from frequency_positive_record_events [OF frequency_positive_empty, of store_rate evs] that
    have "frequency li > 0"
      unfolding frequency_positive_def by blast
    moreover
    from confidence_capped_record_events [OF confidence_capped_empty, of store_rate evs] that
    have "confidence li \<le> 90"
      unfolding confidence_capped_def by blast
    ultimately show ?thesis by simp
  qed
  have rate: "success_rate (on_conflict_update f now NEW li) =
      f ((success_rate li * real_of_int (frequency li) + real_of_int (success_score NEW))
           / real_of_int (frequency li + 1))"
    if "frequency li > 0" for f
    using that by (simp add: on_conflict_update_def)
  have conf: "confidence (on_conflict_update store_rate now NEW li) = min 90 (confidence li + 2)"
    by (simp add: on_conflict_update_def)
  show ?thesis
  proof (intro conjI impI)
    assume "frequency li > 0"
    then show "success_rate (on_conflict_update store_rate now NEW li) =
        store_rate
          ((success_rate li * real_of_int (frequency li) + real_of_int (success_score NEW))
             / real_of_int (frequency li + 1))"
      by (rule rate)
  next
    assume "frequency li > 0"
    then show "\<bar>success_rate (on_conflict_update (round_dec d) now NEW li)
           - (success_rate li * real_of_int (frequency li) + real_of_int (success_score NEW))
               / real_of_int (frequency li + 1)\<bar> \<le> 1 / (2 * 10 ^ d)"
      by (simp only: rate round_dec_error)
  next
    show "confidence (on_conflict_update store_rate now NEW li) = min 90 (confidence li + 2)"
      by (rule conf)
  next
    show "confidence (on_conflict_update store_rate now NEW li) \<le> 90"
      unfolding conf by simp
  next
    assume "learning_insights (record_events store_rate evs empty_database) key = Some li"
    then show "frequency li > 0" using reached by simp
  next
    assume "learning_insights (record_events store_rate evs empty_database) key = Some li"
    then have "confidence li \<le> 90" using reached by simp
    then show "confidence li \<le> confidence (on_conflict_update store_rate now NEW li)"
      unfolding conf by simp
  qed
qed

theorem apply_event_rate_and_confidence_witness:
  "learning_insights
     (record_events (round_dec 2) [(10000000, test_row ''tone'' 75 10000000),
                     (10000100, test_row ''tone'' 100 10000100)] empty_database)
     (''edit_type'', ''tone'')
   = Some \<lparr>frequency = 2, success_rate = 175 / 2,
         recommendation = ''Current approach working well'', confidence = 52,
         sample_size = 2, time_span_days = 1, first_occurrence = 10000000,
         threshold_met = False, stability_score_col = 0.5, pattern_variance_col = 0,
         weekly_success_rates = [175 / 2], stability_validated = False,
         pattern_drift_detected = False, last_updated = 10000100\<rparr>
   \<and> success_rate (on_conflict_update (round_dec 2) 10000200 (test_row ''tone'' 75 10000200)
        \<lparr>frequency = 2, success_rate = 175 / 2,
         recommendation = ''Current approach working well'', confidence = 52,
         sample_size = 2, time_span_days = 1, first_occurrence = 10000000,
         threshold_met = False, stability_score_col = 0.5, pattern_variance_col = 0,
         weekly_success_rates = [175 / 2], stability_validated = False,
         pattern_drift_detected = False, last_updated = 10000100\<rparr>) = 8333 / 100
   \<and> confidence (on_conflict_update (round_dec 2) 10000200 (test_row ''tone'' 75 10000200)
        \<lparr>frequency = 2, success_rate = 175 / 2,
         recommendation = ''Current approach working well'', confidence = 52,
         sample_size = 2, time_span_days = 1, first_occurrence = 10000000,
         threshold_met = False, stability_score_col = 0.5, pattern_variance_col = 0,
         weekly_success_rates = [175 / 2], stability_validated = False,
         pattern_drift_detected = False, last_updated = 10000100\<rparr>) = 54"
proof -
  let ?evs = "[(10000000, test_row ''tone'' 75 10000000),
               (10000100, test_row ''tone'' 100 10000100)]"
  let ?li = "\<lparr>frequency = 2, success_rate = 175 / 2,
         recommendation = ''Current approach working well'', confidence = 52,
         sample_size = 2, time_span_days = 1, first_occurrence = 10000000,
         threshold_met = False, stability_score_col = 0.5, pattern_variance_col = 0,
         weekly_success_rates = [175 / 2], stability_validated = False,
         pattern_drift_detected = False, last_updated = 10000100\<rparr>"
  have row: "learning_insights (record_events (round_dec 2) ?evs empty_database)
               (''edit_type'', ''tone'')
      = Some ?li"
    unfolding record_events_example by simp
  have r: "round_dec 2 (250 / 3) = 8333 / 100"
    by (simp add: round_dec_def round_half_away_def)
  note t = apply_event_rate_and_confidence
      [where li = ?li and store_rate = "round_dec 2" and d = 2 and now = 10000200
         and NEW = "test_row ''tone'' 75 10000200" and evs = ?evs
         and key = "(''edit_type'', ''tone'')"]
  from t row r show ?thesis
    by (simp add: test_row_def)
qed

end
